theory Spec2Isabelle
  imports Complex_Main
begin

section \<open>Python values, exceptions and console output\<close>

text \<open>
  The functions of \<^verbatim>\<open>pyalgogem/data/_access_hdf5.py\<close>, \<^verbatim>\<open>pyalgogem/data/_data_helpers.py\<close>,
  \<^verbatim>\<open>pyalgogem/backtest/_dataset.py\<close> and \<^verbatim>\<open>pyalgogem/base/algo_env.py\<close> are embedded as
  HOL functions. An exception that leaves a function is the result \<open>Raise e\<close>; a normal
  return is \<open>Return v\<close> (Python's \<open>None\<close> is \<open>Return None\<close> where a value may be absent and
  \<open>Return ()\<close> where the function only has an effect). Every \<open>ValueError\<close> carries the
  message of the source; \<open>ValueErrorArgs\<close> is a \<open>ValueError\<close> raised with several arguments.
\<close>

datatype py_error = ValueError string | ValueErrorArgs "string list" | TypeError | KeyError string

datatype 'a result = Return 'a | Raise py_error

text \<open>The spec's error kinds, as the exceptions the source raises for them.\<close>

definition InvalidSymbol :: py_error where
  "InvalidSymbol = ValueError ''Symbol must be BTC or ETH''"

definition InvalidRange_bounds :: py_error where
  "InvalidRange_bounds = ValueError ''Must pass valid datetime arguments''"

definition InvalidRange_order :: py_error where
  "InvalidRange_order = ValueError ''Start time must be prior to end time''"

text \<open>
  A value passed as the \<open>file\<close> argument: a string, or something else (an integer,
  \<open>None\<close>). \<open>py_str\<close> is Python's \<open>str()\<close> on these values.
\<close>

datatype pyval = PyStr string | PyInt int | PyNone

fun string_of_nat :: "nat \<Rightarrow> string" where
  "string_of_nat n =
     (if n < 10 then [''0123456789'' ! n]
      else string_of_nat (n div 10) @ [''0123456789'' ! (n mod 10)])"

declare string_of_nat.simps [simp del]

definition py_str :: "pyval \<Rightarrow> string" where
  "py_str v =
     (case v of
        PyStr s \<Rightarrow> s
      | PyInt i \<Rightarrow> (if i < 0 then ''-'' @ string_of_nat (nat (- i)) else string_of_nat (nat i))
      | PyNone \<Rightarrow> ''None'')"

text \<open>\<open>str.upper()\<close> on ASCII strings.\<close>

definition upper_char :: "char \<Rightarrow> char" where
  "upper_char c =
     (case map_of (zip ''abcdefghijklmnopqrstuvwxyz'' ''ABCDEFGHIJKLMNOPQRSTUVWXYZ'') c of
        Some u \<Rightarrow> u
      | None \<Rightarrow> c)"

definition upper :: "string \<Rightarrow> string" where
  "upper s = map upper_char s"

text \<open>
  A value passed as \<open>start\<close> or \<open>end\<close>: a \<open>datetime.datetime\<close> (a point in time, in
  seconds), a \<open>datetime.date\<close> (a day number), or \<open>None\<close>.
\<close>

datatype timearg = Datetime int | Date int | NoneT

section \<open>data/helpers\<close>

text \<open>
  \<^verbatim>\<open>
  def ensure_hdf5(name):
      if not isinstance(name, str):
          raise ValueError('Please enter a valid name')
      if name[-3:] != '.h5':
          name += '.h5'
      return name
  \<close>
  \<open>name[-3:]\<close> is the last three characters, or the whole string when it is shorter.
\<close>

definition ensure_hdf5 :: "pyval \<Rightarrow> string result" where
  "ensure_hdf5 name =
     (case name of
        PyStr s \<Rightarrow> Return (if drop (length s - 3) s \<noteq> ''.h5'' then s @ ''.h5'' else s)
      | _ \<Rightarrow> Raise (ValueError ''Please enter a valid name''))"

text \<open>
  \<^verbatim>\<open>
  def ensure_datetime(datetime):
      if type(datetime) not in [dt.datetime, dt.date]:
          return False
      else:
          return True
  \<close>
\<close>

definition ensure_datetime :: "timearg \<Rightarrow> bool" where
  "ensure_datetime d = (case d of Datetime _ \<Rightarrow> True | Date _ \<Rightarrow> True | NoneT \<Rightarrow> False)"

text \<open>
  \<open>(start - end).total_seconds()\<close>: the difference of two datetimes or of two dates is a
  timedelta; every other pair of operands raises \<open>TypeError\<close>.
\<close>

definition total_seconds_between :: "timearg \<Rightarrow> timearg \<Rightarrow> int result" where
  "total_seconds_between start end =
     (case (start, end) of
        (Datetime a, Datetime b) \<Rightarrow> Return (a - b)
      | (Date a, Date b) \<Rightarrow> Return ((a - b) * 86400)
      | _ \<Rightarrow> Raise TypeError)"

section \<open>The backing container\<close>

text \<open>
  An HDF5 file holds, under its root, the groups \<open>BTC\<close> and \<open>ETH\<close>, each with one time
  series: the rows stored so far, each a timestamp with its payload. A group that was
  never created is \<open>None\<close>. The file system maps a path to the file stored there, and
  \<open>stdout\<close> collects what the functions print.
\<close>

type_synonym timestamp = int

type_synonym 'a tseries = "(timestamp \<times> 'a) list"

record 'a h5file =
  BTC :: "'a tseries option"
  ETH :: "'a tseries option"

record 'a world =
  files :: "string \<Rightarrow> 'a h5file option"
  stdout :: "string list"

definition py_print :: "string \<Rightarrow> 'a world \<Rightarrow> 'a world" where
  "py_print msg w = w\<lparr>stdout := stdout w @ [msg]\<rparr>"

text \<open>
  The storage library (PyTables and tstables), as far as the functions use it; it is not
  part of the repository, and this is what is assumed of it.
  \<open>tb.open_file(file, 'a')\<close> creates an empty file when there is none, and
  \<open>tb.open_file(file, 'r')\<close> raises then. \<open>f.root.BTC\<close> raises when the group is missing.
  \<open>tseries.append(data)\<close> does nothing for an empty \<open>data\<close>; it raises when the rows of
  \<open>data\<close> are not in ascending order of their timestamps or when the first of them lies
  before the greatest timestamp stored; otherwise it stores the rows of \<open>data\<close> after the
  rows already there.
  \<open>ts.read_range(start, end)\<close> takes two datetimes with \<open>start \<le> end\<close> and returns the
  stored rows between them, bounds included; it raises on every other pair.
\<close>

definition empty_h5file :: "'a h5file" where
  "empty_h5file = \<lparr>BTC = None, ETH = None\<rparr>"

definition get_timeseries :: "string \<Rightarrow> 'a h5file \<Rightarrow> 'a tseries option" where
  "get_timeseries symbol f = (if upper symbol = ''BTC'' then BTC f else ETH f)"

definition put_timeseries :: "string \<Rightarrow> 'a tseries \<Rightarrow> 'a h5file \<Rightarrow> 'a h5file" where
  "put_timeseries symbol ts f =
     (if upper symbol = ''BTC'' then f\<lparr>BTC := Some ts\<rparr> else f\<lparr>ETH := Some ts\<rparr>)"

definition ts_append :: "'a tseries \<Rightarrow> 'a tseries \<Rightarrow> 'a tseries option" where
  "ts_append ts rows =
     (if rows = [] then Some ts
      else if \<not> sorted (map fst rows) then None
      else case map fst ts of
             [] \<Rightarrow> Some (ts @ rows)
           | t # rest \<Rightarrow> if fst (hd rows) < fold max rest t then None else Some (ts @ rows))"

definition ts_read_range :: "'a tseries \<Rightarrow> timearg \<Rightarrow> timearg \<Rightarrow> 'a tseries option" where
  "ts_read_range ts start end =
     (case (start, end) of
        (Datetime a, Datetime b) \<Rightarrow>
          if b < a then None else Some (filter (\<lambda>r. a \<le> fst r \<and> fst r \<le> b) ts)
      | _ \<Rightarrow> None)"

text \<open>
  Modelled from the spec: \<open>get_minmax_timeseries\<close> is imported from
  \<^verbatim>\<open>_data_helpers.py\<close> but its body is not part of the sources. The spec's \<open>extent\<close> is
  "the container's current timestamp range for that symbol, or empty if the symbol has
  no stored rows yet": the least and the greatest stored timestamp, or \<open>(None, None)\<close>.
\<close>

definition get_minmax_timeseries :: "'a tseries \<Rightarrow> timestamp option \<times> timestamp option" where
  "get_minmax_timeseries ts =
     (case map fst ts of
        [] \<Rightarrow> (None, None)
      | t # rest \<Rightarrow> (Some (fold min rest t), Some (fold max rest t)))"

section \<open>data/add\_read\<close>

text \<open>A value passed as \<open>data\<close>: a DataFrame with its rows, or anything else.\<close>

datatype 'a pydata = DataFrame "'a tseries" | NotDataFrame

text \<open>
  \<^verbatim>\<open>
  def append_to_datafile(symbol, data, file='data.h5'):
      if symbol.upper() not in ['BTC', 'ETH']:
          raise ValueError('Symbol must be BTC or ETH')
      if not isinstance(data, DataFrame):
          raise ValueError('Data must be Pandas DataFrame')
      file = ensure_hdf5(str(file))
      try:
          f = tb.open_file(file, 'a')
          if symbol.upper() == 'BTC':
              tseries = f.root.BTC._f_get_timeseries()
          else:
              tseries = f.root.ETH._f_get_timeseries()
          tseries.append(data)
          f.close()
      except:
          print("Error appending to {}".format(file))
  \<close>
\<close>

definition append_to_datafile ::
  "string \<Rightarrow> 'a pydata \<Rightarrow> pyval \<Rightarrow> 'a world \<Rightarrow> unit result \<times> 'a world" where
  "append_to_datafile symbol data file w =
     (if upper symbol \<notin> set [''BTC'', ''ETH''] then (Raise (ValueError ''Symbol must be BTC or ETH''), w)
      else case data of
        NotDataFrame \<Rightarrow> (Raise (ValueError ''Data must be Pandas DataFrame''), w)
      | DataFrame rows \<Rightarrow>
          (case ensure_hdf5 (PyStr (py_str file)) of
             Raise e \<Rightarrow> (Raise e, w)
           | Return name \<Rightarrow>
               (let f = (case files w name of None \<Rightarrow> empty_h5file | Some f \<Rightarrow> f);
                    failed = (Return (),
                              py_print (''Error appending to '' @ name)
                                (w\<lparr>files := (files w)(name \<mapsto> f)\<rparr>))
                in case get_timeseries symbol f of
                     None \<Rightarrow> failed
                   | Some tseries \<Rightarrow>
                       (case ts_append tseries rows of
                          None \<Rightarrow> failed
                        | Some tseries' \<Rightarrow>
                            (Return (),
                             w\<lparr>files := (files w)(name \<mapsto> put_timeseries symbol tseries' f)\<rparr>)))))"

text \<open>
  \<^verbatim>\<open>
  def get_minmax_daterange(symbol, file='data.h5'):
      if symbol.upper() not in ['BTC', 'ETH']:
          raise ValueError('Symbol must be BTC or ETH')
      file = ensure_hdf5(str(file))
      try:
          f = tb.open_file(file, 'r')
          if symbol.upper() == 'BTC':
              ts = f.root.BTC._f_get_timeseries()
          else:
              ts = f.root.ETH._f_get_timeseries()
          min_date, max_date = get_minmax_timeseries(ts)
          f.close()
          return min_date, max_date
      except:
          print("Error getting min-max dates from to {}".format(file))
  \<close>
\<close>

definition get_minmax_daterange ::
  "string \<Rightarrow> pyval \<Rightarrow> 'a world \<Rightarrow> (timestamp option \<times> timestamp option) option result \<times> 'a world" where
  "get_minmax_daterange symbol file w =
     (if upper symbol \<notin> set [''BTC'', ''ETH''] then (Raise (ValueError ''Symbol must be BTC or ETH''), w)
      else case ensure_hdf5 (PyStr (py_str file)) of
        Raise e \<Rightarrow> (Raise e, w)
      | Return name \<Rightarrow>
          (case files w name of
             None \<Rightarrow> (Return None, py_print (''Error getting min-max dates from to '' @ name) w)
           | Some f \<Rightarrow>
               (case get_timeseries symbol f of
                  None \<Rightarrow> (Return None, py_print (''Error getting min-max dates from to '' @ name) w)
                | Some ts \<Rightarrow> (Return (Some (get_minmax_timeseries ts)), w))))"

text \<open>
  \<^verbatim>\<open>
  def read_datafile(symbol, start=None, end=None, file='data.h5', all_data=True):
      if not all_data:
          if not (ensure_datetime(start) | ensure_datetime(end)):
              raise ValueError('Must pass valid datetime arguments')
          if (start - end).total_seconds() >= 0:
              raise ValueError('Start time must be prior to end time')
      if symbol.upper() not in ['BTC', 'ETH']:
          raise ValueError('Symbol must be BTC or ETH')
      file = ensure_hdf5(str(file))
      try:
          with tb.open_file(file, 'r') as f:
              if symbol.upper() == 'BTC':
                  ts = f.root.BTC._f_get_timeseries()
              else:
                  ts = f.root.ETH._f_get_timeseries()
              if all_data:
                  start, end = get_minmax_daterange(symbol, file=file)
              if start is None and end is None:
                  print('No data found in {}'.format(file))
                  return
              dataset = ts.read_range(start, end)
          return dataset
      except:
          print("Error reading from {}".format(file))
  \<close>
  The first part, before the file is opened, is \<open>read_checks\<close>: the exception it raises, if
  any. The \<open>try\<close> block is \<open>read_body\<close>; whatever is raised inside it, also by the call of
  \<open>get_minmax_daterange\<close> or by unpacking its result \<open>None\<close>, ends in the \<open>except\<close> branch.
\<close>

definition read_checks :: "string \<Rightarrow> timearg \<Rightarrow> timearg \<Rightarrow> bool \<Rightarrow> py_error option" where
  "read_checks symbol start end all_data =
     (if \<not> all_data \<and> \<not> (ensure_datetime start \<or> ensure_datetime end)
        then Some (ValueError ''Must pass valid datetime arguments'')
      else if \<not> all_data \<and> total_seconds_between start end = Raise TypeError
        then Some TypeError
      else if \<not> all_data \<and> (case total_seconds_between start end of Return d \<Rightarrow> d \<ge> 0 | Raise _ \<Rightarrow> False)
        then Some (ValueError ''Start time must be prior to end time'')
      else if upper symbol \<notin> set [''BTC'', ''ETH'']
        then Some (ValueError ''Symbol must be BTC or ETH'')
      else None)"

definition time_of :: "timestamp option \<Rightarrow> timearg" where
  "time_of t = (case t of None \<Rightarrow> NoneT | Some s \<Rightarrow> Datetime s)"

definition read_body ::
  "string \<Rightarrow> timearg \<Rightarrow> timearg \<Rightarrow> string \<Rightarrow> bool \<Rightarrow> 'a world \<Rightarrow> 'a tseries option result \<times> 'a world" where
  "read_body symbol start end name all_data w =
     (let failed = (\<lambda>w'. (Return None, py_print (''Error reading from '' @ name) w'))
      in case files w name of
           None \<Rightarrow> failed w
         | Some f \<Rightarrow>
             (case get_timeseries symbol f of
                None \<Rightarrow> failed w
              | Some ts \<Rightarrow>
                  (let (bounds, w1) =
                         (if all_data then
                            (case get_minmax_daterange symbol (PyStr name) w of
                               (Return (Some (mn, mx)), w') \<Rightarrow> (Some (time_of mn, time_of mx), w')
                             | (_, w') \<Rightarrow> (None, w'))
                          else (Some (start, end), w))
                   in case bounds of
                        None \<Rightarrow> failed w1
                      | Some (s, e) \<Rightarrow>
                          if s = NoneT \<and> e = NoneT
                          then (Return None, py_print (''No data found in '' @ name) w1)
                          else (case ts_read_range ts s e of
                                  None \<Rightarrow> failed w1
                                | Some dataset \<Rightarrow> (Return (Some dataset), w1)))))"

definition read_datafile ::
  "string \<Rightarrow> timearg \<Rightarrow> timearg \<Rightarrow> pyval \<Rightarrow> bool \<Rightarrow> 'a world \<Rightarrow> 'a tseries option result \<times> 'a world" where
  "read_datafile symbol start end file all_data w =
     (case read_checks symbol start end all_data of
        Some e \<Rightarrow> (Raise e, w)
      | None \<Rightarrow>
          (case ensure_hdf5 (PyStr (py_str file)) of
             Raise e \<Rightarrow> (Raise e, w)
           | Return name \<Rightarrow> read_body symbol start end name all_data w))"

section \<open>base/algo\_env: updating the stored history\<close>

text \<open>
  Modelled from the spec: \<open>select_new_values\<close> is called by \<open>update_all_historical\<close> but its
  body is not part of the sources. The spec's append step says: "rows whose timestamp
  falls inside or before the existing extent are considered already present and are
  dropped. If the filtered set is empty, the operation is a documented no-op". With no
  extent yet, nothing is dropped; an empty selection is \<open>None\<close>.
\<close>

definition select_new_values ::
  "'a tseries \<Rightarrow> timestamp option \<Rightarrow> timestamp option \<Rightarrow> 'a tseries option" where
  "select_new_values dataframe old_min old_max =
     (let new_df = (case old_max of None \<Rightarrow> dataframe | Some mx \<Rightarrow> filter (\<lambda>r. mx < fst r) dataframe)
      in if new_df = [] then None else Some new_df)"

text \<open>
  The attributes of an \<open>AlgorithmEnvironment\<close> that \<open>update_all_historical\<close> reads. The
  setters keep \<open>symbol\<close> at \<open>None\<close>, \<open>'BTC'\<close> or \<open>'ETH'\<close> and \<open>window\<close> at \<open>None\<close>, \<open>'D'\<close>, \<open>'H'\<close>
  or \<open>'M'\<close>. The market-data provider \<open>self.CC\<close> is the parameter \<open>cc\<close>: the rows it returns
  for a window and a symbol.
  \<^verbatim>\<open>
  def check_key_attributes(self):
      if self.symbol is None or self.window is None or self.file is None:
          raise ValueError('Please ensure you have chosen: ',
                           'a symbol, time window, and local file')
      else:
          return

  def update_all_historical(self):
      self.check_key_attributes()
      if self.window == 'D':
          hist_df = self.CC.historical_price_daily(self.symbol)
      elif self.window == 'H':
          hist_df = self.CC.historical_price_hourly(self.symbol)
      elif self.window == 'M':
          hist_df = self.CC.historical_price_minute(self.symbol)
      old_min, old_max = data.get_minmax_daterange(self.symbol, self.file)
      new_df = data.select_new_values(dataframe=hist_df, old_min=old_min, old_max=old_max)
      if new_df is None:
          print('No new data for {} found - no data saved locally'.format(self.symbol))
      else:
          data.append_to_datafile(symbol=self.symbol, data=new_df)
          print('All available historical data for {} has been successfully loaded!'.format(self.symbol))
  \<close>
  \<open>append_to_datafile\<close> is called without \<open>file\<close>, so it writes to its default
  \<open>'data.h5'\<close>. Unpacking the result \<open>None\<close> of \<open>get_minmax_daterange\<close> raises \<open>TypeError\<close>.
\<close>

datatype window = Daily | Hourly | Minute

record environment =
  env_file :: pyval
  env_symbol :: "string option"
  env_window :: "window option"

definition check_key_attributes :: "environment \<Rightarrow> unit result" where
  "check_key_attributes env =
     (if env_symbol env = None \<or> env_window env = None \<or> env_file env = PyNone
      then Raise (ValueErrorArgs [''Please ensure you have chosen: '',
                                  ''a symbol, time window, and local file''])
      else Return ())"

definition update_all_historical ::
  "(window \<Rightarrow> string \<Rightarrow> 'a tseries) \<Rightarrow> environment \<Rightarrow> 'a world \<Rightarrow> unit result \<times> 'a world" where
  "update_all_historical cc env w =
     (case check_key_attributes env of
        Raise e \<Rightarrow> (Raise e, w)
      | Return _ \<Rightarrow>
          (case (env_symbol env, env_window env) of
             (Some symbol, Some win) \<Rightarrow>
               (let hist_df = cc win symbol
                in case get_minmax_daterange symbol (env_file env) w of
                     (Raise e, w1) \<Rightarrow> (Raise e, w1)
                   | (Return None, w1) \<Rightarrow> (Raise TypeError, w1)
                   | (Return (Some (old_min, old_max)), w1) \<Rightarrow>
                       (case select_new_values hist_df old_min old_max of
                          None \<Rightarrow>
                            (Return (),
                             py_print (''No new data for '' @ symbol @ '' found - no data saved locally'') w1)
                        | Some new_df \<Rightarrow>
                            (case append_to_datafile symbol (DataFrame new_df) (PyStr ''data.h5'') w1 of
                               (Raise e, w2) \<Rightarrow> (Raise e, w2)
                             | (Return _, w2) \<Rightarrow>
                                 (Return (),
                                  py_print (''All available historical data for '' @ symbol @
                                            '' has been successfully loaded!'') w2))))
           | _ \<Rightarrow> (Raise TypeError, w)))"

section \<open>backtest/dataset\<close>

text \<open>
  A cell of a numeric DataFrame column is a binary64 value: a finite number, an infinity
  or NaN. Finite results are taken in the reals (rounding, overflow and the sign of zero
  are not modelled); what matters to \<open>dropna\<close> is which cells are NaN. \<open>fdiv\<close> is the
  division of two cells and \<open>flog\<close> is \<open>numpy.log\<close> on a cell.
\<close>

datatype fval = Fin real | PInf | NInf | NaN

fun fdiv :: "fval \<Rightarrow> fval \<Rightarrow> fval" where
  "fdiv NaN _ = NaN"
| "fdiv _ NaN = NaN"
| "fdiv (Fin a) (Fin b) =
     (if b \<noteq> 0 then Fin (a / b) else if 0 < a then PInf else if a < 0 then NInf else NaN)"
| "fdiv (Fin a) _ = Fin 0"
| "fdiv PInf (Fin b) = (if 0 \<le> b then PInf else NInf)"
| "fdiv NInf (Fin b) = (if 0 \<le> b then NInf else PInf)"
| "fdiv _ _ = NaN"

fun flog :: "fval \<Rightarrow> fval" where
  "flog (Fin x) = (if 0 < x then Fin (ln x) else if x = 0 then NInf else NaN)"
| "flog PInf = PInf"
| "flog NInf = NaN"
| "flog NaN = NaN"

text \<open>
  A DataFrame: the row labels and the columns in their order, each column with one cell
  per row and no two columns with the same name.
  \<open>data[name]\<close> is \<open>getitem\<close> (\<open>None\<close> where pandas raises \<open>KeyError\<close>); \<open>data[name] = vals\<close> is
  \<open>setitem\<close> (an existing column is replaced in place, a new one is added last);
  \<open>col.shift(n)\<close> moves the cells down by \<open>n\<close> rows and fills with NaN; \<open>data.dropna()\<close> keeps
  the rows that have no NaN in any column.
\<close>

record dataframe =
  index :: "int list"
  columns :: "(string \<times> fval list) list"

definition getitem :: "dataframe \<Rightarrow> string \<Rightarrow> fval list option" where
  "getitem df name = map_of (columns df) name"

fun set_column ::
  "string \<Rightarrow> fval list \<Rightarrow> (string \<times> fval list) list \<Rightarrow> (string \<times> fval list) list" where
  "set_column name vals [] = [(name, vals)]"
| "set_column name vals ((n, c) # cs) =
     (if n = name then (n, vals) # cs else (n, c) # set_column name vals cs)"

definition setitem :: "string \<Rightarrow> fval list \<Rightarrow> dataframe \<Rightarrow> dataframe" where
  "setitem name vals df = df\<lparr>columns := set_column name vals (columns df)\<rparr>"

definition shift :: "nat \<Rightarrow> fval list \<Rightarrow> fval list" where
  "shift n xs = take (length xs) (replicate n NaN @ xs)"

definition complete_rows :: "dataframe \<Rightarrow> bool list" where
  "complete_rows df =
     fold (\<lambda>(name, col) keep. map2 (\<and>) keep (map (\<lambda>v. v \<noteq> NaN) col))
       (columns df) (replicate (length (index df)) True)"

definition select_rows :: "bool list \<Rightarrow> 'a list \<Rightarrow> 'a list" where
  "select_rows keep xs = map snd (filter fst (zip keep xs))"

definition dropna :: "dataframe \<Rightarrow> dataframe" where
  "dropna df =
     (let keep = complete_rows df
      in \<lparr>index = select_rows keep (index df),
          columns = map (\<lambda>(name, col). (name, select_rows keep col)) (columns df)\<rparr>)"

text \<open>
  The attributes of a \<open>Dataset\<close>. A value assigned to \<open>raw\<close> or \<open>sample\<close> is a DataFrame,
  \<open>None\<close> or something else; a value assigned to \<open>nlags\<close> is an \<open>int\<close>, \<open>None\<close> or something
  else. An operation returns its result with the object as it leaves it.
\<close>

record dataset =
  raw :: "dataframe option"
  sample :: "dataframe option"
  nlags :: "int option"

datatype pyframe = Frame dataframe | NoFrame | NotFrame

datatype pylag = LagInt int | LagNone | LagOther

text \<open>
  \<^verbatim>\<open>
  @sample.setter
  def sample(self, new_sample):
      if new_sample is None or isinstance(new_sample, DataFrame):
          self.__sample = new_sample
      else:
          raise ValueError('Must be Pandas DataFrame object')
  \<close>
  The methods below assign a DataFrame or \<open>None\<close> to \<open>self.sample\<close>, which this setter
  stores; there the assignment is written as the update of the field.
\<close>

definition sample_setter :: "pyframe \<Rightarrow> dataset \<Rightarrow> unit result \<times> dataset" where
  "sample_setter new_sample ds =
     (case new_sample of
        NoFrame \<Rightarrow> (Return (), ds\<lparr>sample := None\<rparr>)
      | Frame df \<Rightarrow> (Return (), ds\<lparr>sample := Some df\<rparr>)
      | NotFrame \<Rightarrow> (Raise (ValueError ''Must be Pandas DataFrame object''), ds))"

text \<open>
  \<^verbatim>\<open>
  def reset_sample_data(self):
      if self.raw is None:
          self.sample = None
      else:
          self.sample = self.raw.copy()
  \<close>
\<close>

definition reset_sample_data :: "dataset \<Rightarrow> dataset" where
  "reset_sample_data ds =
     (case raw ds of None \<Rightarrow> ds\<lparr>sample := None\<rparr> | Some r \<Rightarrow> ds\<lparr>sample := Some r\<rparr>)"

text \<open>
  \<^verbatim>\<open>
  def add_log_returns(self):
      self.reset_sample_data()
      data = self.sample
      data['returns'] = log(data['close'] / data['close'].shift(1))
      self.sample = data.dropna()
      self.nlags = None
  \<close>
  \<open>self.nlags = None\<close> is the first branch of the \<open>nlags\<close> setter: it stores \<open>None\<close>.
  Subscripting \<open>None\<close> raises \<open>TypeError\<close>.
\<close>

definition add_log_returns :: "dataset \<Rightarrow> unit result \<times> dataset" where
  "add_log_returns ds =
     (let ds1 = reset_sample_data ds
      in case sample ds1 of
           None \<Rightarrow> (Raise TypeError, ds1)
         | Some data \<Rightarrow>
             (case getitem data ''close'' of
                None \<Rightarrow> (Raise (KeyError ''close''), ds1)
              | Some close \<Rightarrow>
                  (let data' = setitem ''returns'' (map flog (map2 fdiv close (shift 1 close))) data
                   in (Return (), ds1\<lparr>sample := Some (dropna data'), nlags := None\<rparr>))))"

text \<open>
  \<^verbatim>\<open>
  def set_return_lags(self, nlags):
      if not (type(nlags) == int and nlags > 1):
          raise ValueError('Must have more than one lag')
      if nlags > len(self.sample) + 1:
          raise ValueError('Must have less lags than length of sample dataset')
      self.add_log_returns()
      data = self.sample
      for i in range(nlags):
          num = i + 1
          lagname = 'returns_{}'.format(num)
          if lagname not in data.columns:
              data[lagname] = data['returns'].shift(num)
      self.sample = data.dropna()
  \<close>
  The loop is \<open>add_lags\<close> over the values of \<open>num\<close>; it changes \<open>data\<close> in place, so what it
  has added so far stays when it raises. \<open>len(None)\<close> raises \<open>TypeError\<close>.
\<close>

fun add_lags :: "nat list \<Rightarrow> dataframe \<Rightarrow> unit result \<times> dataframe" where
  "add_lags [] data = (Return (), data)"
| "add_lags (num # nums) data =
     (let lagname = ''returns_'' @ string_of_nat num
      in if lagname \<in> set (map fst (columns data)) then add_lags nums data
         else case getitem data ''returns'' of
                None \<Rightarrow> (Raise (KeyError ''returns''), data)
              | Some r \<Rightarrow> add_lags nums (setitem lagname (shift num r) data))"

definition set_return_lags :: "pylag \<Rightarrow> dataset \<Rightarrow> unit result \<times> dataset" where
  "set_return_lags k ds =
     (case k of
        LagInt n \<Rightarrow>
          if \<not> 1 < n then (Raise (ValueError ''Must have more than one lag''), ds)
          else (case sample ds of
                  None \<Rightarrow> (Raise TypeError, ds)
                | Some s \<Rightarrow>
                    if int (length (index s)) + 1 < n
                    then (Raise (ValueError ''Must have less lags than length of sample dataset''), ds)
                    else (case add_log_returns ds of
                            (Raise e, ds1) \<Rightarrow> (Raise e, ds1)
                          | (Return _, ds1) \<Rightarrow>
                              (case sample ds1 of
                                 None \<Rightarrow> (Raise TypeError, ds1)
                               | Some data \<Rightarrow>
                                   (case add_lags (map (\<lambda>i. i + 1) [0..<nat n]) data of
                                      (Raise e, data') \<Rightarrow> (Raise e, ds1\<lparr>sample := Some data'\<rparr>)
                                    | (Return _, data') \<Rightarrow>
                                        (Return (), ds1\<lparr>sample := Some (dropna data')\<rparr>)))))
      | _ \<Rightarrow> (Raise (ValueError ''Must have more than one lag''), ds))"

text \<open>
  \<^verbatim>\<open>
  @nlags.setter
  def nlags(self, nlags):
      if nlags is None:
          self.__nlags = None
      elif type(nlags) != int:
          raise ValueError('Must be an integer value')
      elif nlags <= 1:
          raise ValueError('Must be greater than 1')
      else:
          self.set_return_lags(nlags)
          self.__nlags = nlags
  \<close>
  This is the spec's \<open>set_nlags\<close>.
\<close>

definition nlags_setter :: "pylag \<Rightarrow> dataset \<Rightarrow> unit result \<times> dataset" where
  "nlags_setter k ds =
     (case k of
        LagNone \<Rightarrow> (Return (), ds\<lparr>nlags := None\<rparr>)
      | LagOther \<Rightarrow> (Raise (ValueError ''Must be an integer value''), ds)
      | LagInt n \<Rightarrow>
          if n \<le> 1 then (Raise (ValueError ''Must be greater than 1''), ds)
          else (case set_return_lags k ds of
                  (Raise e, ds1) \<Rightarrow> (Raise e, ds1)
                | (Return _, ds1) \<Rightarrow> (Return (), ds1\<lparr>nlags := Some n\<rparr>)))"

text \<open>
  \<^verbatim>\<open>
  @raw.setter
  def raw(self, new_raw):
      if new_raw is None or isinstance(new_raw, DataFrame):
          self.__raw = new_raw
          self.sample = new_raw
          if self.sample is not None:
              self.add_log_returns()
      else:
          raise ValueError('Must be Pandas DataFrame object')

  def __init__(self, input_data):
      self.raw = input_data
      self.nlags = None
  \<close>
  The \<open>raw\<close> setter is the spec's \<open>set_raw\<close>. A constructor that raises leaves no object.
\<close>

definition raw_setter :: "pyframe \<Rightarrow> dataset \<Rightarrow> unit result \<times> dataset" where
  "raw_setter new_raw ds =
     (case new_raw of
        NotFrame \<Rightarrow> (Raise (ValueError ''Must be Pandas DataFrame object''), ds)
      | NoFrame \<Rightarrow> (Return (), ds\<lparr>raw := None, sample := None\<rparr>)
      | Frame df \<Rightarrow> add_log_returns (ds\<lparr>raw := Some df, sample := Some df\<rparr>))"

definition Dataset_init :: "pyframe \<Rightarrow> dataset result" where
  "Dataset_init input_data =
     (case raw_setter input_data \<lparr>raw = None, sample = None, nlags = None\<rparr> of
        (Raise e, _) \<Rightarrow> Raise e
      | (Return _, ds) \<Rightarrow>
          (case nlags_setter LagNone ds of (Raise e, _) \<Rightarrow> Raise e | (Return _, ds') \<Rightarrow> Return ds'))"

section \<open>Notions used in the statements\<close>

text \<open>The name of the container a \<open>file\<close> argument addresses: \<open>ensure_hdf5(str(file))\<close>.\<close>

definition h5_name :: "pyval \<Rightarrow> string" where
  "h5_name file = (case ensure_hdf5 (PyStr (py_str file)) of Return name \<Rightarrow> name | Raise _ \<Rightarrow> [])"

text \<open>The rows stored for a symbol in that container; \<open>None\<close> when the file or the group is missing.\<close>

definition stored_series :: "string \<Rightarrow> pyval \<Rightarrow> 'a world \<Rightarrow> 'a tseries option" where
  "stored_series symbol file w =
     (case files w (h5_name file) of None \<Rightarrow> None | Some f \<Rightarrow> get_timeseries symbol f)"

text \<open>Both bounds are datetimes, or both are dates, and \<open>start\<close> is before \<open>end\<close>.\<close>

definition range_ok :: "timearg \<Rightarrow> timearg \<Rightarrow> bool" where
  "range_ok start end = (case total_seconds_between start end of Return d \<Rightarrow> d < 0 | Raise _ \<Rightarrow> False)"

text \<open>Example states: a disk without files, and a disk with one container.\<close>

definition no_files :: "unit world" where
  "no_files = \<lparr>files = Map.empty, stdout = []\<rparr>"

definition store_with :: "string \<Rightarrow> unit tseries \<Rightarrow> unit tseries \<Rightarrow> unit world" where
  "store_with name btc eth = \<lparr>files = [name \<mapsto> \<lparr>BTC = Some btc, ETH = Some eth\<rparr>], stdout = []\<rparr>"

text \<open>A raw table with the rows \<open>0, 1, ...\<close> and the one column \<open>close\<close>.\<close>

definition closes :: "real list \<Rightarrow> dataframe" where
  "closes cs = \<lparr>index = map int [0..<length cs], columns = [(''close'', map Fin cs)]\<rparr>"

text \<open>
  The tables the code builds from a raw table: the sample that \<open>add_log_returns\<close> stores, the
  sample that \<open>set_return_lags\<close> stores for \<open>k\<close> lags, and the two as a function of \<open>nlags\<close>.
  \<open>None\<close> where the code raises (no \<open>close\<close> column).
\<close>

definition log_returns_table :: "dataframe \<Rightarrow> dataframe option" where
  "log_returns_table r =
     (case getitem r ''close'' of
        None \<Rightarrow> None
      | Some close \<Rightarrow> Some (dropna (setitem ''returns'' (map flog (map2 fdiv close (shift 1 close))) r)))"

definition lagged_table :: "int \<Rightarrow> dataframe \<Rightarrow> dataframe option" where
  "lagged_table k r =
     (case log_returns_table r of
        None \<Rightarrow> None
      | Some t \<Rightarrow>
          (case add_lags (map (\<lambda>i. i + 1) [0..<nat k]) t of
             (Return _, t') \<Rightarrow> Some (dropna t')
           | (Raise _, _) \<Rightarrow> None))"

definition computed_sample :: "dataframe \<Rightarrow> int option \<Rightarrow> dataframe option" where
  "computed_sample r k = (case k of None \<Rightarrow> log_returns_table r | Some n \<Rightarrow> lagged_table n r)"

text \<open>
  The pipeline of the spec (section 4.2), written from its words as a function of \<open>raw\<close> and
  \<open>nlags\<close>; rows are counted from 0. LogReturns: the raw table with a \<open>returns\<close> column,
  \<open>returns[t] = ln(close[t] / close[t-1])\<close>, and the first row dropped. Lagged(k):
  additionally the columns \<open>returns_1 ... returns_k\<close>, \<open>returns_i[t] = returns[t-i]\<close>, and the
  first \<open>k\<close> rows dropped. \<open>cell\<close> reads the number in a finite cell.
\<close>

fun cell :: "fval \<Rightarrow> real" where
  "cell (Fin x) = x"
| "cell _ = 0"

definition spec_returns :: "fval list \<Rightarrow> fval list" where
  "spec_returns close =
     map (\<lambda>t. Fin (ln (cell (close ! t) / cell (close ! (t - 1))))) [1..<length close]"

definition spec_log_returns :: "dataframe \<Rightarrow> dataframe option" where
  "spec_log_returns r =
     (case map_of (columns r) ''close'' of
        None \<Rightarrow> None
      | Some close \<Rightarrow>
          Some \<lparr>index = drop 1 (index r),
                columns = map (\<lambda>(name, col). (name, drop 1 col)) (columns r) @
                          [(''returns'', spec_returns close)]\<rparr>)"

definition spec_lagged :: "nat \<Rightarrow> dataframe \<Rightarrow> dataframe option" where
  "spec_lagged k r =
     (case spec_log_returns r of
        None \<Rightarrow> None
      | Some l \<Rightarrow>
          (case map_of (columns l) ''returns'' of
             None \<Rightarrow> None
           | Some ret \<Rightarrow>
               Some \<lparr>index = drop k (index l),
                     columns = map (\<lambda>(name, col). (name, drop k col)) (columns l) @
                               map (\<lambda>i. (''returns_'' @ string_of_nat i,
                                          map (\<lambda>t. ret ! (t - i)) [k..<length ret]))
                                 [1..<Suc k]\<rparr>))"

definition pipeline :: "dataframe \<Rightarrow> int option \<Rightarrow> dataframe option" where
  "pipeline r k = (case k of None \<Rightarrow> spec_log_returns r | Some n \<Rightarrow> spec_lagged (nat n) r)"

text \<open>
  The raw tables the pipeline is compared on: every column has one cell per row and no
  NaN, no column is named \<open>returns\<close> or \<open>returns_...\<close>, and the closes are finite and
  positive.
\<close>

fun positive :: "fval \<Rightarrow> bool" where
  "positive (Fin x) = (0 < x)"
| "positive _ = False"

definition clean :: "dataframe \<Rightarrow> bool" where
  "clean r \<longleftrightarrow>
     list_all (\<lambda>(name, col). length col = length (index r) \<and> NaN \<notin> set col \<and>
                 name \<noteq> ''returns'' \<and> take 8 name \<noteq> ''returns_'') (columns r) \<and>
     (case map_of (columns r) ''close'' of None \<Rightarrow> False | Some close \<Rightarrow> list_all positive close)"

text \<open>The rows of a table from row \<open>k\<close> on.\<close>

definition drop_rows :: "nat \<Rightarrow> dataframe \<Rightarrow> dataframe" where
  "drop_rows k df =
     \<lparr>index = drop k (index df), columns = map (\<lambda>(name, col). (name, drop k col)) (columns df)\<rparr>"

text \<open>
  The states of a \<open>Dataset\<close> after a sequence of successful public operations:
  construction, \<open>set_raw\<close> and \<open>set_nlags\<close>.
\<close>

inductive reachable :: "dataset \<Rightarrow> bool" where
  constructed: "Dataset_init input_data = Return ds \<Longrightarrow> reachable ds"
| set_raw: "reachable ds \<Longrightarrow> raw_setter new_raw ds = (Return (), ds') \<Longrightarrow> reachable ds'"
| set_nlags: "reachable ds \<Longrightarrow> nlags_setter k ds = (Return (), ds') \<Longrightarrow> reachable ds'"

text \<open>
  The rows of a fetched table that lie after the stored extent: all of them when nothing is
  stored yet.
\<close>

definition new_rows :: "'a tseries \<Rightarrow> 'a tseries \<Rightarrow> 'a tseries" where
  "new_rows ts hist =
     (case snd (get_minmax_timeseries ts) of None \<Rightarrow> hist | Some mx \<Rightarrow> filter (\<lambda>r. mx < fst r) hist)"

text \<open>
  The rows stored after \<open>tseries.append(rows)\<close> on a series holding \<open>ts\<close>: unchanged when the
  library refuses the batch.
\<close>

definition appended :: "'a tseries \<Rightarrow> 'a tseries \<Rightarrow> 'a tseries" where
  "appended ts rows = (case ts_append ts rows of None \<Rightarrow> ts | Some ts' \<Rightarrow> ts')"

text \<open>An example environment on the default container, and a provider that returns two rows.\<close>

definition demo_env :: environment where
  "demo_env = \<lparr>env_file = PyStr ''data.h5'', env_symbol = Some ''BTC'', env_window = Some Daily\<rparr>"

definition demo_cc :: "window \<Rightarrow> string \<Rightarrow> unit tseries" where
  "demo_cc win symbol = [(1, ()), (2, ())]"

text \<open>
  Example objects: the Dataset built from the closes 100, 110, 121, and the one built from
  the closes 1, 2, 4, 8, 16, as constructed and after \<open>set_nlags(2)\<close> and \<open>set_nlags(3)\<close>.
\<close>

definition three_closes :: dataset where
  "three_closes =
     \<lparr>raw = Some (closes [100, 110, 121]),
      sample = Some \<lparr>index = [1, 2],
                     columns = [(''close'', [Fin 110, Fin 121]),
                                (''returns'', [Fin (ln (110 / 100)), Fin (ln (121 / 110))])]\<rparr>,
      nlags = None\<rparr>"

definition doubling :: dataset where
  "doubling =
     \<lparr>raw = Some (closes [1, 2, 4, 8, 16]),
      sample = Some \<lparr>index = [1, 2, 3, 4],
                     columns = [(''close'', [Fin 2, Fin 4, Fin 8, Fin 16]),
                                (''returns'', [Fin (ln 2), Fin (ln 2), Fin (ln 2), Fin (ln 2)])]\<rparr>,
      nlags = None\<rparr>"

definition doubling_lag2 :: dataset where
  "doubling_lag2 =
     doubling\<lparr>sample := Some \<lparr>index = [3, 4],
                     columns = [(''close'', [Fin 8, Fin 16]),
                                (''returns'', [Fin (ln 2), Fin (ln 2)]),
                                (''returns_1'', [Fin (ln 2), Fin (ln 2)]),
                                (''returns_2'', [Fin (ln 2), Fin (ln 2)])]\<rparr>,
       nlags := Some 2\<rparr>"

definition doubling_lag3 :: dataset where
  "doubling_lag3 =
     doubling\<lparr>sample := Some \<lparr>index = [4],
                     columns = [(''close'', [Fin 16]),
                                (''returns'', [Fin (ln 2)]),
                                (''returns_1'', [Fin (ln 2)]),
                                (''returns_2'', [Fin (ln 2)]),
                                (''returns_3'', [Fin (ln 2)])]\<rparr>,
       nlags := Some 3\<rparr>"

text \<open>
  A raw table that already has a column named \<open>returns_2\<close>, the Dataset built from it, and
  that Dataset after \<open>set_nlags(2)\<close>.
\<close>

definition preset_raw :: dataframe where
  "preset_raw =
     \<lparr>index = [0, 1, 2, 3, 4],
      columns = [(''close'', [Fin 1, Fin 2, Fin 4, Fin 8, Fin 16]),
                 (''returns_2'', [Fin 0, Fin 0, Fin 0, Fin 0, Fin 0])]\<rparr>"

definition preset :: dataset where
  "preset =
     \<lparr>raw = Some preset_raw,
      sample = Some \<lparr>index = [1, 2, 3, 4],
                     columns = [(''close'', [Fin 2, Fin 4, Fin 8, Fin 16]),
                                (''returns_2'', [Fin 0, Fin 0, Fin 0, Fin 0]),
                                (''returns'', [Fin (ln 2), Fin (ln 2), Fin (ln 2), Fin (ln 2)])]\<rparr>,
      nlags = None\<rparr>"

definition preset_lag2 :: dataset where
  "preset_lag2 =
     preset\<lparr>sample := Some \<lparr>index = [2, 3, 4],
                     columns = [(''close'', [Fin 4, Fin 8, Fin 16]),
                                (''returns_2'', [Fin 0, Fin 0, Fin 0]),
                                (''returns'', [Fin (ln 2), Fin (ln 2), Fin (ln 2)]),
                                (''returns_1'', [Fin (ln 2), Fin (ln 2), Fin (ln 2)])]\<rparr>,
       nlags := Some 2\<rparr>"

text \<open>
  The invariant of the reachable states: a lag count that is set is more than 1, and
  \<open>sample\<close> is the table the code builds from \<open>raw\<close> for the current \<open>nlags\<close>, or, while \<open>nlags\<close>
  is unset, from \<open>raw\<close> for some lag count.
\<close>

definition sample_inv :: "dataset \<Rightarrow> bool" where
  "sample_inv ds =
     ((case nlags ds of None \<Rightarrow> True | Some k \<Rightarrow> 1 < k) \<and>
      (case raw ds of
         None \<Rightarrow> sample ds = None
       | Some r \<Rightarrow>
           sample ds \<noteq> None \<and>
           (sample ds = computed_sample r (nlags ds) \<or>
            nlags ds = None \<and> (\<exists>k. 1 < k \<and> sample ds = computed_sample r (Some k)))))"

section \<open>The store\<close>

lemma ensure_hdf5_h5_name: "ensure_hdf5 (PyStr (py_str fname)) = Return (h5_name fname)"
  by (simp add: h5_name_def ensure_hdf5_def)

lemma h5_name_eq:
  "h5_name fname = (if drop (length (py_str fname) - 3) (py_str fname) = ''.h5'' then py_str fname else py_str fname @ ''.h5'')"
  by (simp add: h5_name_def ensure_hdf5_def)

lemma h5_name_suffix: "drop (length (h5_name fname) - 3) (h5_name fname) = ''.h5''"
  by (simp add: h5_name_eq)

lemma h5_name_idem: "h5_name (PyStr (h5_name fname)) = h5_name fname"
  by (simp add: h5_name_eq [where fname = "PyStr (h5_name fname)"] py_str_def h5_name_suffix)

lemma append_to_datafile_name:
  "append_to_datafile symbol data fname w = append_to_datafile symbol data (PyStr (h5_name fname)) w"
  by (simp add: append_to_datafile_def ensure_hdf5_h5_name h5_name_idem split: pydata.split)

lemma get_minmax_daterange_name:
  "get_minmax_daterange symbol fname w = get_minmax_daterange symbol (PyStr (h5_name fname)) w"
  by (simp add: get_minmax_daterange_def ensure_hdf5_h5_name h5_name_idem)

lemma read_datafile_name:
  "read_datafile symbol start end fname all_data w = read_datafile symbol start end (PyStr (h5_name fname)) all_data w"
  by (simp add: read_datafile_def ensure_hdf5_h5_name h5_name_idem split: option.split)

lemma append_to_datafile_frame:
  "p \<noteq> h5_name fname \<Longrightarrow> files (snd (append_to_datafile symbol data fname w)) p = files w p"
  by (simp add: append_to_datafile_def ensure_hdf5_h5_name py_print_def Let_def split: pydata.split option.split)

lemma get_minmax_daterange_files:
  "files (snd (get_minmax_daterange symbol fname w)) = files w"
  by (simp add: get_minmax_daterange_def ensure_hdf5_h5_name py_print_def split: option.split)

lemma read_body_files:
  "files (snd (read_body symbol start end name all_data w)) = files w"
  using get_minmax_daterange_files [of symbol "PyStr name" w]
  by (auto simp add: read_body_def py_print_def Let_def split: option.split prod.split result.split)

lemma read_datafile_files:
  "files (snd (read_datafile symbol start end fname all_data w)) = files w"
  by (simp add: read_datafile_def ensure_hdf5_h5_name read_body_files split: option.split)


lemmas eval_defs =
  append_to_datafile_def get_minmax_daterange_def read_datafile_def read_body_def read_checks_def
  ensure_hdf5_def ensure_datetime_def total_seconds_between_def py_str_def upper_def upper_char_def
  get_timeseries_def put_timeseries_def ts_append_def ts_read_range_def get_minmax_timeseries_def
  time_of_def py_print_def empty_h5file_def no_files_def store_with_def h5_name_def stored_series_def
  InvalidSymbol_def InvalidRange_bounds_def InvalidRange_order_def range_ok_def

text \<open>
  Claim C10, as the code has it. Every operation of the store takes \<open>str(file)\<close> and then
  adds the suffix \<open>.h5\<close> unless the name already ends in it: the name so obtained ends in
  \<open>.h5\<close>, the operation behaves as if it had been given that name, \<open>'data'\<close> and \<open>'data.h5'\<close>
  name the same container, an append changes no other file and the two reads change no
  file at all. This holds for a \<open>file\<close> argument that is not a string as well: it is
  converted, not refused. Only \<open>ensure_hdf5\<close> itself, given a value that is no string,
  raises.
\<close>

theorem file_name_normalised:
  "ensure_hdf5 (PyStr (py_str fname)) = Return (h5_name fname) \<and>
   h5_name fname =
     (if drop (length (py_str fname) - 3) (py_str fname) = ''.h5'' then py_str fname
      else py_str fname @ ''.h5'') \<and>
   drop (length (h5_name fname) - 3) (h5_name fname) = ''.h5'' \<and>
   h5_name (PyStr ''data'') = h5_name (PyStr ''data.h5'') \<and>
   append_to_datafile symbol data fname w = append_to_datafile symbol data (PyStr (h5_name fname)) w \<and>
   get_minmax_daterange symbol fname w = get_minmax_daterange symbol (PyStr (h5_name fname)) w \<and>
   read_datafile symbol start end fname all_data w =
     read_datafile symbol start end (PyStr (h5_name fname)) all_data w \<and>
   (\<forall>p. p \<noteq> h5_name fname \<longrightarrow> files (snd (append_to_datafile symbol data fname w)) p = files w p) \<and>
   files (snd (get_minmax_daterange symbol fname w)) = files w \<and>
   files (snd (read_datafile symbol start end fname all_data w)) = files w \<and>
   ensure_hdf5 (PyInt i) = Raise (ValueError ''Please enter a valid name'') \<and>
   ensure_hdf5 PyNone = Raise (ValueError ''Please enter a valid name'')"
proof -
  have "h5_name (PyStr ''data'') = h5_name (PyStr ''data.h5'')"
    by (simp add: h5_name_eq py_str_def)
  moreover have "ensure_hdf5 (PyInt i) = Raise (ValueError ''Please enter a valid name'')"
    and "ensure_hdf5 PyNone = Raise (ValueError ''Please enter a valid name'')"
    by (simp_all add: ensure_hdf5_def)
  ultimately show ?thesis
    using ensure_hdf5_h5_name [of fname] h5_name_eq [of fname] h5_name_suffix [of fname]
      append_to_datafile_name [of symbol data fname w] get_minmax_daterange_name [of symbol fname w]
      read_datafile_name [of symbol start "end" fname all_data w]
      append_to_datafile_frame [of _ fname symbol data w]
      get_minmax_daterange_files [of symbol fname w]
      read_datafile_files [of symbol start "end" fname all_data w]
    by blast
qed

text \<open>
  Claim C10, an instance: the file argument \<open>5\<close> addresses \<open>'5.h5'\<close>, and appending to it
  leaves \<open>'data.h5'\<close> as it was.
\<close>

theorem file_name_normalised_witness:
  "h5_name (PyInt 5) = ''5.h5'' \<and>
   append_to_datafile ''BTC'' (DataFrame [(1, ())]) (PyInt 5) (store_with ''5.h5'' [] []) =
     append_to_datafile ''BTC'' (DataFrame [(1, ())]) (PyStr ''5.h5'') (store_with ''5.h5'' [] []) \<and>
   files (snd (append_to_datafile ''BTC'' (DataFrame [(1, ())]) (PyInt 5) (store_with ''5.h5'' [] []))) ''data.h5''
     = files (store_with ''5.h5'' [] []) ''data.h5''"
proof -
  have n: "h5_name (PyInt 5) = ''5.h5''"
    by (simp add: h5_name_eq py_str_def string_of_nat.simps)
  note t = file_name_normalised [of "PyInt 5" "''BTC''" "DataFrame [(1, ())]"
      "store_with ''5.h5'' [] []" NoneT NoneT True]
  from t have a: "append_to_datafile ''BTC'' (DataFrame [(1, ())]) (PyInt 5) (store_with ''5.h5'' [] []) =
     append_to_datafile ''BTC'' (DataFrame [(1, ())]) (PyStr (h5_name (PyInt 5))) (store_with ''5.h5'' [] [])"
    by blast
  from t have "\<forall>p. p \<noteq> h5_name (PyInt 5) \<longrightarrow>
      files (snd (append_to_datafile ''BTC'' (DataFrame [(1, ())]) (PyInt 5) (store_with ''5.h5'' [] []))) p
        = files (store_with ''5.h5'' [] []) p"
    by blast
  then have b: "files (snd (append_to_datafile ''BTC'' (DataFrame [(1, ())]) (PyInt 5) (store_with ''5.h5'' [] []))) ''data.h5''
     = files (store_with ''5.h5'' [] []) ''data.h5''"
    using n by simp
  from n a b show ?thesis by simp
qed

text \<open>
  Claim C10 as stated fails: with the integer \<open>5\<close> as file name, the extent of \<open>BTC\<close> is read
  from \<open>'5.h5'\<close> and returned; no error is raised.
\<close>

theorem non_string_file_counterexample:
  "get_minmax_daterange ''BTC'' (PyInt 5) (store_with ''5.h5'' [(1, ())] []) =
     (Return (Some (Some 1, Some 1)), store_with ''5.h5'' [(1, ())] [])"
  by (simp add: eval_defs string_of_nat.simps)

text \<open>
  Claim C9, as the code has it. For a symbol whose upper-case form is neither \<open>BTC\<close> nor
  \<open>ETH\<close>, append, extent and \<open>read_all\<close> raise the invalid-symbol error and leave files and
  console as they were. \<open>read_range\<close> does the same when its bounds pass the range checks;
  when they do not, it raises the error of the range checks, which come first, and still
  touches nothing.
\<close>

theorem invalid_symbol_rejected:
  assumes "upper symbol \<notin> set [''BTC'', ''ETH'']"
  shows "append_to_datafile symbol data fname w = (Raise InvalidSymbol, w) \<and>
   get_minmax_daterange symbol fname w = (Raise InvalidSymbol, w) \<and>
   read_datafile symbol start end fname True w = (Raise InvalidSymbol, w) \<and>
   (range_ok start end \<longrightarrow> read_datafile symbol start end fname False w = (Raise InvalidSymbol, w)) \<and>
   (\<not> range_ok start end \<longrightarrow>
      (\<exists>e. e \<noteq> InvalidSymbol \<and> read_datafile symbol start end fname False w = (Raise e, w)))"
proof -
  have a: "append_to_datafile symbol data fname w = (Raise InvalidSymbol, w)"
    using assms by (simp add: append_to_datafile_def InvalidSymbol_def)
  have b: "get_minmax_daterange symbol fname w = (Raise InvalidSymbol, w)"
    using assms by (simp add: get_minmax_daterange_def InvalidSymbol_def)
  have c: "read_datafile symbol start end fname True w = (Raise InvalidSymbol, w)"
    using assms by (simp add: read_datafile_def read_checks_def InvalidSymbol_def)
  have d: "range_ok start end \<Longrightarrow> read_datafile symbol start end fname False w = (Raise InvalidSymbol, w)"
    using assms
    by (cases start; cases "end")
      (simp_all add: read_datafile_def read_checks_def InvalidSymbol_def range_ok_def
        ensure_datetime_def total_seconds_between_def)
  have e: "\<not> range_ok start end \<Longrightarrow>
      (\<exists>e. e \<noteq> InvalidSymbol \<and> read_datafile symbol start end fname False w = (Raise e, w))"
    by (cases start; cases "end")
      (simp_all add: read_datafile_def read_checks_def InvalidSymbol_def range_ok_def
        ensure_datetime_def total_seconds_between_def)
  from a b c d e show ?thesis by blast
qed

text \<open>
  Claim C9, an instance: the symbol \<open>XRP\<close>, and the range from 1 to 2.
\<close>

theorem invalid_symbol_rejected_witness:
  "append_to_datafile ''XRP'' (DataFrame [(1, ())]) (PyStr ''data'') no_files = (Raise InvalidSymbol, no_files) \<and>
   get_minmax_daterange ''XRP'' (PyStr ''data'') no_files = (Raise InvalidSymbol, no_files) \<and>
   read_datafile ''XRP'' NoneT NoneT (PyStr ''data'') True no_files = (Raise InvalidSymbol, no_files) \<and>
   read_datafile ''XRP'' (Datetime 1) (Datetime 2) (PyStr ''data'') False no_files = (Raise InvalidSymbol, no_files)"
proof -
  have h: "upper ''XRP'' \<notin> set [''BTC'', ''ETH'']"
    by (simp add: upper_def upper_char_def)
  have r: "range_ok (Datetime 1) (Datetime 2)"
    by (simp add: range_ok_def total_seconds_between_def)
  show ?thesis
    using invalid_symbol_rejected [OF h, of "DataFrame [(1, ())]" "PyStr ''data''" no_files NoneT NoneT]
      invalid_symbol_rejected [OF h, of "DataFrame [(1, ())]" "PyStr ''data''" no_files "Datetime 1" "Datetime 2"] r
    by simp
qed

text \<open>
  Claim C9 as stated fails: \<open>read_range\<close> for the symbol \<open>XRP\<close> with \<open>start\<close> after \<open>end\<close> raises
  the error of the range check, not the invalid-symbol error; and the symbol \<open>btc\<close>, which is
  not one of the strings \<open>BTC\<close> and \<open>ETH\<close>, is accepted.
\<close>

theorem invalid_symbol_counterexample:
  "read_datafile ''XRP'' (Datetime 2) (Datetime 1) (PyStr ''data.h5'') False no_files =
     (Raise (ValueError ''Start time must be prior to end time''), no_files) \<and>
   get_minmax_daterange ''btc'' (PyStr ''data.h5'') (store_with ''data.h5'' [] []) =
     (Return (Some (None, None)), store_with ''data.h5'' [] [])"
  by (simp add: eval_defs)


lemma append_results:
  "fst (append_to_datafile symbol data fname w) \<in>
     {Return (), Raise InvalidSymbol, Raise (ValueError ''Data must be Pandas DataFrame'')}"
  by (simp add: append_to_datafile_def ensure_hdf5_h5_name InvalidSymbol_def Let_def
      split: pydata.split option.split)

lemma get_minmax_daterange_results:
  "fst (get_minmax_daterange symbol fname w) = Raise InvalidSymbol \<or>
   (\<exists>v. fst (get_minmax_daterange symbol fname w) = Return v)"
  by (simp add: get_minmax_daterange_def ensure_hdf5_h5_name InvalidSymbol_def split: option.split)

lemma read_body_returns: "\<exists>v. fst (read_body symbol start end name all_data w) = Return v"
  by (simp add: read_body_def Let_def split: option.split prod.split)

lemma read_checks_errors:
  "read_checks symbol start end all_data = Some e \<Longrightarrow>
   e \<in> {InvalidRange_bounds, TypeError, InvalidRange_order, InvalidSymbol}"
  by (auto simp add: read_checks_def InvalidRange_bounds_def InvalidRange_order_def InvalidSymbol_def
      split: if_splits)

lemma read_datafile_results:
  "fst (read_datafile symbol start end fname all_data w) \<in>
     Raise ` {InvalidRange_bounds, TypeError, InvalidRange_order, InvalidSymbol} \<or>
   (\<exists>v. fst (read_datafile symbol start end fname all_data w) = Return v)"
proof (cases "read_checks symbol start end all_data")
  case None
  then show ?thesis
    using read_body_returns [of symbol start "end" "h5_name fname" all_data w]
    by (simp add: read_datafile_def ensure_hdf5_h5_name)
next
  case (Some e)
  then show ?thesis
    using read_checks_errors [OF Some] by (simp add: read_datafile_def)
qed

lemma append_storage_failure:
  "upper symbol \<in> set [''BTC'', ''ETH''] \<Longrightarrow> stored_series symbol fname w = None \<Longrightarrow>
   append_to_datafile symbol (DataFrame rows) fname w =
     (Return (),
      py_print (''Error appending to '' @ h5_name fname)
        (w\<lparr>files := (files w)(h5_name fname \<mapsto>
            (case files w (h5_name fname) of None \<Rightarrow> empty_h5file | Some f \<Rightarrow> f))\<rparr>))"
  by (auto simp add: append_to_datafile_def ensure_hdf5_h5_name stored_series_def Let_def
      get_timeseries_def empty_h5file_def split: option.splits)

lemma get_minmax_daterange_storage_failure:
  "upper symbol \<in> set [''BTC'', ''ETH''] \<Longrightarrow> stored_series symbol fname w = None \<Longrightarrow>
   get_minmax_daterange symbol fname w =
     (Return None, py_print (''Error getting min-max dates from to '' @ h5_name fname) w)"
  by (auto simp add: get_minmax_daterange_def ensure_hdf5_h5_name stored_series_def split: option.splits)

lemma read_checks_all_data:
  "upper symbol \<in> set [''BTC'', ''ETH''] \<Longrightarrow> read_checks symbol start end True = None"
  by (simp add: read_checks_def)

lemma read_checks_passed:
  "upper symbol \<in> set [''BTC'', ''ETH''] \<Longrightarrow> all_data \<or> range_ok start end \<Longrightarrow>
   read_checks symbol start end all_data = None"
  by (cases start; cases "end")
    (auto simp add: read_checks_def range_ok_def ensure_datetime_def total_seconds_between_def)

lemma read_datafile_storage_failure:
  "upper symbol \<in> set [''BTC'', ''ETH''] \<Longrightarrow> all_data \<or> range_ok start end \<Longrightarrow>
   stored_series symbol fname w = None \<Longrightarrow>
   read_datafile symbol start end fname all_data w =
     (Return None, py_print (''Error reading from '' @ h5_name fname) w)"
  by (auto simp add: read_datafile_def read_checks_passed ensure_hdf5_h5_name read_body_def
      stored_series_def split: option.splits)

lemma append_outcome:
  "(\<exists>w'. append_to_datafile symbol data fname w = (Return (), w')) \<or>
   append_to_datafile symbol data fname w = (Raise InvalidSymbol, w) \<or>
   append_to_datafile symbol data fname w = (Raise (ValueError ''Data must be Pandas DataFrame''), w)"
  by (simp add: append_to_datafile_def ensure_hdf5_h5_name InvalidSymbol_def Let_def
      split: pydata.split option.split)

lemma get_minmax_daterange_outcome:
  "(\<exists>v w'. get_minmax_daterange symbol fname w = (Return v, w')) \<or>
   get_minmax_daterange symbol fname w = (Raise InvalidSymbol, w)"
  by (simp add: get_minmax_daterange_def ensure_hdf5_h5_name InvalidSymbol_def split: option.split)

lemma read_body_outcome: "\<exists>v w'. read_body symbol start end name all_data w = (Return v, w')"
  using read_body_returns [of symbol start "end" name all_data w]
  by (metis prod.collapse)

lemma read_datafile_outcome:
  "(\<exists>v w'. read_datafile symbol start end fname all_data w = (Return v, w')) \<or>
   read_datafile symbol start end fname all_data w = (Raise InvalidRange_bounds, w) \<or>
   read_datafile symbol start end fname all_data w = (Raise TypeError, w) \<or>
   read_datafile symbol start end fname all_data w = (Raise InvalidRange_order, w) \<or>
   read_datafile symbol start end fname all_data w = (Raise InvalidSymbol, w)"
proof (cases "read_checks symbol start end all_data")
  case None
  then show ?thesis
    using read_body_outcome [of symbol start "end" "h5_name fname" all_data w]
    by (simp add: read_datafile_def ensure_hdf5_h5_name)
next
  case (Some e)
  then show ?thesis
    using read_checks_errors [OF Some] by (auto simp add: read_datafile_def)
qed

lemma append_refused:
  assumes "upper symbol \<in> set [''BTC'', ''ETH'']"
    and "stored_series symbol fname w = Some ts" and "ts_append ts rows = None"
  shows "append_to_datafile symbol (DataFrame rows) fname w =
           (Return (), py_print (''Error appending to '' @ h5_name fname) w)"
proof -
  from assms(2) obtain f where f: "files w (h5_name fname) = Some f" "get_timeseries symbol f = Some ts"
    by (auto simp add: stored_series_def split: option.splits)
  have "(files w)(h5_name fname \<mapsto> f) = files w"
    using f(1) by (rule map_upd_triv)
  then show ?thesis
    using assms(1,3) f
    by (simp add: append_to_datafile_def ensure_hdf5_h5_name Let_def)
qed

text \<open>
  Claim C2, as the code has it. Each operation either returns normally or raises one of the
  errors of its argument checks, and then the disk and the console are as before the call:
  the invalid-symbol error, the error for data that is no DataFrame, and for a read the two
  range errors and the \<open>TypeError\<close> of \<open>start - end\<close>. When the container or the group of the
  symbol is missing, which fails inside the \<open>try\<close> block, each operation prints its message
  and returns \<open>None\<close>; the append has by then created the file. When the library refuses the
  rows of an append, the append prints its message, returns \<open>None\<close> and stores nothing.
\<close>

theorem storage_failures_swallowed:
  "((\<exists>w'. append_to_datafile symbol data fname w = (Return (), w')) \<or>
    append_to_datafile symbol data fname w = (Raise InvalidSymbol, w) \<or>
    append_to_datafile symbol data fname w = (Raise (ValueError ''Data must be Pandas DataFrame''), w)) \<and>
   ((\<exists>v w'. get_minmax_daterange symbol fname w = (Return v, w')) \<or>
    get_minmax_daterange symbol fname w = (Raise InvalidSymbol, w)) \<and>
   ((\<exists>v w'. read_datafile symbol start end fname all_data w = (Return v, w')) \<or>
    read_datafile symbol start end fname all_data w = (Raise InvalidRange_bounds, w) \<or>
    read_datafile symbol start end fname all_data w = (Raise TypeError, w) \<or>
    read_datafile symbol start end fname all_data w = (Raise InvalidRange_order, w) \<or>
    read_datafile symbol start end fname all_data w = (Raise InvalidSymbol, w)) \<and>
   (upper symbol \<in> set [''BTC'', ''ETH''] \<and> stored_series symbol fname w = None \<longrightarrow>
      append_to_datafile symbol (DataFrame rows) fname w =
        (Return (),
         py_print (''Error appending to '' @ h5_name fname)
           (w\<lparr>files := (files w)(h5_name fname \<mapsto>
               (case files w (h5_name fname) of None \<Rightarrow> empty_h5file | Some f \<Rightarrow> f))\<rparr>)) \<and>
      get_minmax_daterange symbol fname w =
        (Return None, py_print (''Error getting min-max dates from to '' @ h5_name fname) w) \<and>
      (all_data \<or> range_ok start end \<longrightarrow>
         read_datafile symbol start end fname all_data w =
           (Return None, py_print (''Error reading from '' @ h5_name fname) w))) \<and>
   (upper symbol \<in> set [''BTC'', ''ETH''] \<and> stored_series symbol fname w = Some ts \<and>
    ts_append ts rows = None \<longrightarrow>
      append_to_datafile symbol (DataFrame rows) fname w =
        (Return (), py_print (''Error appending to '' @ h5_name fname) w))"
  using append_outcome [of symbol data fname w] get_minmax_daterange_outcome [of symbol fname w]
    read_datafile_outcome [of symbol start "end" fname all_data w]
    append_storage_failure [of symbol fname w rows]
    get_minmax_daterange_storage_failure [of symbol fname w]
    read_datafile_storage_failure [of symbol all_data start "end" fname w]
    append_refused [of symbol fname w ts rows]
  by blast

text \<open>
  Claim C2, an instance: the three operations for \<open>BTC\<close> on a disk without files, and an
  append of the two rows that the container already holds.
\<close>

theorem storage_failures_swallowed_witness:
  "append_to_datafile ''BTC'' (DataFrame [(1, ())]) (PyStr ''data'') no_files =
     (Return (), py_print ''Error appending to data.h5'' (no_files\<lparr>files := [''data.h5'' \<mapsto> empty_h5file]\<rparr>)) \<and>
   get_minmax_daterange ''BTC'' (PyStr ''data'') no_files =
     (Return None, py_print ''Error getting min-max dates from to data.h5'' no_files) \<and>
   read_datafile ''BTC'' NoneT NoneT (PyStr ''data'') True no_files =
     (Return None, py_print ''Error reading from data.h5'' no_files) \<and>
   append_to_datafile ''BTC'' (DataFrame [(1, ()), (2, ())]) (PyStr ''data'')
       (store_with ''data.h5'' [(1, ()), (2, ())] []) =
     (Return (), py_print ''Error appending to data.h5'' (store_with ''data.h5'' [(1, ()), (2, ())] []))"
proof -
  have n: "h5_name (PyStr ''data'') = ''data.h5''"
    by (simp add: h5_name_eq py_str_def)
  have h: "upper ''BTC'' \<in> set [''BTC'', ''ETH''] \<and> stored_series ''BTC'' (PyStr ''data'') no_files = None"
    by (simp add: upper_def upper_char_def stored_series_def n no_files_def)
  have f: "files no_files = Map.empty"
    by (simp add: no_files_def)
  note t = storage_failures_swallowed [of "''BTC''" "DataFrame [(1, ())]" "PyStr ''data''" no_files
      NoneT NoneT True "[(1, ())]"]
  from t h have
    "append_to_datafile ''BTC'' (DataFrame [(1, ())]) (PyStr ''data'') no_files =
        (Return (),
         py_print (''Error appending to '' @ h5_name (PyStr ''data''))
           (no_files\<lparr>files := (files no_files)(h5_name (PyStr ''data'') \<mapsto>
               (case files no_files (h5_name (PyStr ''data'')) of None \<Rightarrow> empty_h5file | Some f \<Rightarrow> f))\<rparr>)) \<and>
      get_minmax_daterange ''BTC'' (PyStr ''data'') no_files =
        (Return None, py_print (''Error getting min-max dates from to '' @ h5_name (PyStr ''data'')) no_files) \<and>
      read_datafile ''BTC'' NoneT NoneT (PyStr ''data'') True no_files =
        (Return None, py_print (''Error reading from '' @ h5_name (PyStr ''data'')) no_files)"
    by blast
  then have a: "append_to_datafile ''BTC'' (DataFrame [(1, ())]) (PyStr ''data'') no_files =
     (Return (), py_print ''Error appending to data.h5'' (no_files\<lparr>files := [''data.h5'' \<mapsto> empty_h5file]\<rparr>)) \<and>
   get_minmax_daterange ''BTC'' (PyStr ''data'') no_files =
     (Return None, py_print ''Error getting min-max dates from to data.h5'' no_files) \<and>
   read_datafile ''BTC'' NoneT NoneT (PyStr ''data'') True no_files =
     (Return None, py_print ''Error reading from data.h5'' no_files)"
    by (simp add: n f)
  have h2: "upper ''BTC'' \<in> set [''BTC'', ''ETH''] \<and>
      stored_series ''BTC'' (PyStr ''data'') (store_with ''data.h5'' [(1, ()), (2, ())] []) =
        Some [(1, ()), (2, ())] \<and>
      ts_append [(1, ()), (2, ())] [(1, ()), (2 :: int, ())] = None"
    by (simp add: upper_def upper_char_def stored_series_def n store_with_def get_timeseries_def
        ts_append_def)
  note t2 = storage_failures_swallowed [of "''BTC''" "DataFrame [(1, ())]" "PyStr ''data''"
      "store_with ''data.h5'' [(1, ()), (2, ())] []" NoneT NoneT True "[(1, ()), (2, ())]" "[(1, ()), (2, ())]"]
  from t2 h2 have "append_to_datafile ''BTC'' (DataFrame [(1, ()), (2, ())]) (PyStr ''data'')
       (store_with ''data.h5'' [(1, ()), (2, ())] []) =
     (Return (), py_print (''Error appending to '' @ h5_name (PyStr ''data''))
        (store_with ''data.h5'' [(1, ()), (2, ())] []))"
    by blast
  with a show ?thesis
    by (simp add: n)
qed

text \<open>
  Claim C2 as stated fails: on a disk without files, read, extent and append print a message
  and return normally; no failure is returned to the caller.
\<close>

theorem storage_failure_counterexample:
  "read_datafile ''BTC'' NoneT NoneT (PyStr ''data.h5'') True no_files =
     (Return None, no_files\<lparr>stdout := [''Error reading from data.h5'']\<rparr>) \<and>
   get_minmax_daterange ''BTC'' (PyStr ''data.h5'') no_files =
     (Return None, no_files\<lparr>stdout := [''Error getting min-max dates from to data.h5'']\<rparr>) \<and>
   fst (append_to_datafile ''BTC'' (DataFrame [(1, ())]) (PyStr ''data.h5'') no_files) = Return () \<and>
   stdout (snd (append_to_datafile ''BTC'' (DataFrame [(1, ())]) (PyStr ''data.h5'') no_files)) =
     [''Error appending to data.h5'']"
  by (simp add: eval_defs)

text \<open>
  Claim C8, as the code has it. When the container holds no rows for a valid symbol, the
  extent is \<open>(None, None)\<close> and nothing is printed; \<open>read_all\<close> prints "No data found in" with
  the file name and returns \<open>None\<close>, not an empty sequence of rows.
\<close>

theorem empty_store_results:
  assumes "upper symbol \<in> set [''BTC'', ''ETH'']" and "stored_series symbol fname w = Some []"
  shows "get_minmax_daterange symbol fname w = (Return (Some (None, None)), w) \<and>
   read_datafile symbol start end fname True w =
     (Return None, py_print (''No data found in '' @ h5_name fname) w)"
proof -
  obtain f where f: "files w (h5_name fname) = Some f" "get_timeseries symbol f = Some []"
    using assms(2) by (auto simp add: stored_series_def split: option.splits)
  have a: "get_minmax_daterange symbol (PyStr (h5_name fname)) w = (Return (Some (None, None)), w)"
    using assms(1) f
    by (simp add: get_minmax_daterange_def ensure_hdf5_h5_name h5_name_idem get_minmax_timeseries_def)
  then have b: "get_minmax_daterange symbol fname w = (Return (Some (None, None)), w)"
    by (simp add: get_minmax_daterange_name [of symbol fname w])
  have "read_body symbol start end (h5_name fname) True w =
     (Return None, py_print (''No data found in '' @ h5_name fname) w)"
    using f a by (simp add: read_body_def time_of_def)
  then have "read_datafile symbol start end fname True w =
     (Return None, py_print (''No data found in '' @ h5_name fname) w)"
    using assms(1) by (simp add: read_datafile_def read_checks_all_data ensure_hdf5_h5_name)
  with b show ?thesis by simp
qed

text \<open>
  Claim C8, an instance: the symbol \<open>ETH\<close> in a container that has rows for \<open>BTC\<close> only.
\<close>

theorem empty_store_results_witness:
  "get_minmax_daterange ''ETH'' (PyStr ''data'') (store_with ''data.h5'' [(1, ())] []) =
     (Return (Some (None, None)), store_with ''data.h5'' [(1, ())] []) \<and>
   read_datafile ''ETH'' NoneT NoneT (PyStr ''data'') True (store_with ''data.h5'' [(1, ())] []) =
     (Return None, py_print ''No data found in data.h5'' (store_with ''data.h5'' [(1, ())] []))"
proof -
  have n: "h5_name (PyStr ''data'') = ''data.h5''"
    by (simp add: h5_name_eq py_str_def)
  have h1: "upper ''ETH'' \<in> set [''BTC'', ''ETH'']"
    by (simp add: upper_def upper_char_def)
  have h2: "stored_series ''ETH'' (PyStr ''data'') (store_with ''data.h5'' [(1, ())] []) = Some []"
    by (simp add: stored_series_def n store_with_def get_timeseries_def upper_def upper_char_def)
  show ?thesis
    using empty_store_results [OF h1 h2, of NoneT NoneT] by (simp add: n)
qed

text \<open>
  Claim C8 as stated fails: \<open>read_all\<close> of \<open>BTC\<close> on an empty container returns \<open>None\<close> after
  printing a message.
\<close>

theorem empty_store_counterexample:
  "read_datafile ''BTC'' NoneT NoneT (PyStr ''data.h5'') True (store_with ''data.h5'' [] []) =
     (Return None, (store_with ''data.h5'' [] [])\<lparr>stdout := [''No data found in data.h5'']\<rparr>)"
  by (simp add: eval_defs)

text \<open>
  Claim C6, what the code does where it departs from the claim: when exactly one bound is
  a datetime or a date and the other is not, the guard \<open>not (a | b)\<close> lets the call pass and
  \<open>start - end\<close> raises \<open>TypeError\<close>; the range error is not raised.
\<close>

theorem read_one_bound_invalid:
  "read_datafile symbol (Datetime a) NoneT fname False w = (Raise TypeError, w) \<and>
   read_datafile symbol NoneT (Datetime a) fname False w = (Raise TypeError, w) \<and>
   read_datafile symbol (Date d) NoneT fname False w = (Raise TypeError, w) \<and>
   read_datafile symbol NoneT (Date d) fname False w = (Raise TypeError, w)"
  by (simp add: read_datafile_def read_checks_def ensure_datetime_def total_seconds_between_def)

text \<open>
  Where the range checks do raise the range errors: both bounds invalid, or \<open>start\<close> not
  before \<open>end\<close>.
\<close>

lemma read_range_rejected:
  "read_datafile symbol NoneT NoneT fname False w = (Raise InvalidRange_bounds, w) \<and>
   (b \<le> a \<longrightarrow> read_datafile symbol (Datetime a) (Datetime b) fname False w = (Raise InvalidRange_order, w)) \<and>
   (b \<le> a \<longrightarrow> read_datafile symbol (Date a) (Date b) fname False w = (Raise InvalidRange_order, w))"
  by (simp add: read_datafile_def read_checks_def ensure_datetime_def total_seconds_between_def
      InvalidRange_bounds_def InvalidRange_order_def)

section \<open>Updating the stored history\<close>

lemma get_minmax_max:
  "ts \<noteq> [] \<Longrightarrow> snd (get_minmax_timeseries ts) = Some (Max (fst ` set ts))"
  by (cases ts) (simp_all add: get_minmax_timeseries_def Max.set_eq_fold [symmetric])

lemma get_minmax_empty: "get_minmax_timeseries [] = (None, None)"
  by (simp add: get_minmax_timeseries_def)

lemma select_new_values_eq:
  "select_new_values hist (fst (get_minmax_timeseries ts)) (snd (get_minmax_timeseries ts)) =
     (if new_rows ts hist = [] then None else Some (new_rows ts hist))"
  by (simp add: select_new_values_def new_rows_def Let_def)

lemma new_rows_again: "new_rows (ts @ new_rows ts hist) hist = []"
proof (cases "ts @ new_rows ts hist = []")
  case True
  note both = True [unfolded append_is_Nil_conv]
  from both have a: "ts = []"
    by (rule conjunct1)
  from both have b: "new_rows ts hist = []"
    by (rule conjunct2)
  from a b have "hist = []"
    by (simp add: new_rows_def get_minmax_empty)
  then show ?thesis
    by (simp add: new_rows_def split: option.split)
next
  case False
  let ?all = "ts @ new_rows ts hist"
  have mx: "snd (get_minmax_timeseries ?all) = Some (Max (fst ` set ?all))"
    by (rule get_minmax_max [OF False])
  have "fst r \<le> Max (fst ` set ?all)" if r: "r \<in> set hist" for r
  proof (cases "r \<in> set (new_rows ts hist)")
    case True
    then show ?thesis by (intro Max_ge) auto
  next
    case no: False
    show ?thesis
    proof (cases "ts = []")
      case True
      with no r show ?thesis
        by (simp add: new_rows_def get_minmax_empty)
    next
      case ne: False
      have m: "snd (get_minmax_timeseries ts) = Some (Max (fst ` set ts))"
        by (rule get_minmax_max [OF ne])
      with no r have "fst r \<le> Max (fst ` set ts)"
        by (simp add: new_rows_def)
      also have "\<dots> \<le> Max (fst ` set ?all)"
        using ne by (intro Max_mono) auto
      finally show ?thesis .
    qed
  qed
  then have "filter (\<lambda>r. Max (fst ` set ?all) < fst r) hist = []"
    by (auto simp add: filter_empty_conv not_less)
  then show ?thesis
    by (simp add: new_rows_def [of ?all] mx)
qed

lemma ts_append_Some: "ts_append ts rows = Some ts' \<Longrightarrow> ts' = ts @ rows"
  by (auto simp add: ts_append_def split: if_splits list.splits)

lemma appended_cases: "appended ts rows = ts \<or> appended ts rows = ts @ rows"
  by (auto simp add: appended_def dest: ts_append_Some split: option.split)

lemma appended_again:
  "new_rows (appended ts (new_rows ts hist)) hist = [] \<or>
   appended (appended ts (new_rows ts hist)) (new_rows (appended ts (new_rows ts hist)) hist) =
     appended ts (new_rows ts hist)"
proof (cases "ts_append ts (new_rows ts hist)")
  case None
  then have "appended ts (new_rows ts hist) = ts"
    by (simp add: appended_def)
  then show ?thesis by simp
next
  case (Some ts')
  then have "appended ts (new_rows ts hist) = ts @ new_rows ts hist"
    using ts_append_Some [OF Some] by (simp add: appended_def)
  then show ?thesis
    by (simp add: new_rows_again)
qed

lemma new_rows_sorted: "sorted (map fst hist) \<Longrightarrow> sorted (map fst (new_rows ts hist))"
  by (simp add: new_rows_def sorted_filter split: option.split)

lemma appended_new_rows:
  assumes "sorted (map fst hist)"
  shows "appended ts (new_rows ts hist) = ts @ new_rows ts hist"
proof (cases "new_rows ts hist = []")
  case True
  then show ?thesis
    by (simp add: appended_def ts_append_def)
next
  case ne: False
  have so: "sorted (map fst (new_rows ts hist))"
    by (rule new_rows_sorted [OF assms])
  show ?thesis
  proof (cases ts)
    case Nil
    then show ?thesis
      using ne so by (simp add: appended_def ts_append_def)
  next
    case (Cons t rest)
    have mx: "snd (get_minmax_timeseries ts) = Some (fold max (map fst rest) (fst t))"
      by (simp add: Cons get_minmax_timeseries_def)
    have "hd (new_rows ts hist) \<in> set (new_rows ts hist)"
      using ne by simp
    then have "fold max (map fst rest) (fst t) < fst (hd (new_rows ts hist))"
      unfolding new_rows_def mx by simp
    then have "\<not> fst (hd (new_rows ts hist)) < fold max (map fst rest) (fst t)"
      by simp
    then show ?thesis
      using ne so by (simp add: appended_def ts_append_def Cons)
  qed
qed

lemma get_put_timeseries: "get_timeseries symbol (put_timeseries symbol ts f) = Some ts"
  by (simp add: get_timeseries_def put_timeseries_def)

lemma put_put_timeseries:
  "put_timeseries symbol ts (put_timeseries symbol ts' f) = put_timeseries symbol ts f"
  by (simp add: put_timeseries_def)

lemma put_get_timeseries: "get_timeseries symbol f = Some ts \<Longrightarrow> put_timeseries symbol ts f = f"
  by (simp add: get_timeseries_def put_timeseries_def split: if_splits)

lemma append_returns:
  "upper symbol \<in> set [''BTC'', ''ETH''] \<Longrightarrow>
   fst (append_to_datafile symbol (DataFrame rows) fname w) = Return ()"
  by (simp add: append_to_datafile_def ensure_hdf5_h5_name Let_def split: option.split)

lemma append_files:
  assumes "upper symbol \<in> set [''BTC'', ''ETH'']"
    and "files w (h5_name fname) = Some f" and "get_timeseries symbol f = Some ts"
  shows "files (snd (append_to_datafile symbol (DataFrame rows) fname w)) =
           (files w)(h5_name fname \<mapsto> put_timeseries symbol (appended ts rows) f)"
  using assms put_get_timeseries [OF assms(3)]
  by (simp add: append_to_datafile_def ensure_hdf5_h5_name appended_def py_print_def Let_def
      split: option.split)

lemma get_minmax_daterange_fst:
  "files w = files w' \<Longrightarrow>
   fst (get_minmax_daterange symbol fname w) = fst (get_minmax_daterange symbol fname w')"
  by (simp add: get_minmax_daterange_def ensure_hdf5_h5_name split: option.split)

lemma read_datafile_fst:
  assumes "files w = files w'"
  shows "fst (read_datafile symbol start end fname True w) = fst (read_datafile symbol start end fname True w')"
proof -
  have "fst (get_minmax_daterange symbol (PyStr name) w) = fst (get_minmax_daterange symbol (PyStr name) w')" for name
    by (rule get_minmax_daterange_fst [OF assms])
  then have "fst (read_body symbol start end name True w) = fst (read_body symbol start end name True w')" for name
    using assms
    by (auto simp add: read_body_def Let_def split: option.split prod.split result.split)
      (metis fst_conv result.inject option.inject prod.inject option.distinct(1) result.distinct(1))+
  then show ?thesis
    by (simp add: read_datafile_def ensure_hdf5_h5_name split: option.split)
qed

text \<open>The files after an update, for an environment whose file is the default container.\<close>

lemma update_files:
  assumes "h5_name (env_file env) = ''data.h5''"
  shows "files (snd (update_all_historical cc env w)) =
     (case (env_symbol env, env_window env) of
        (Some symbol, Some win) \<Rightarrow>
          if upper symbol \<in> set [''BTC'', ''ETH''] then
            (case files w ''data.h5'' of
               None \<Rightarrow> files w
             | Some f \<Rightarrow>
                 (case get_timeseries symbol f of
                    None \<Rightarrow> files w
                  | Some ts \<Rightarrow>
                      if new_rows ts (cc win symbol) = [] then files w
                      else (files w)(''data.h5'' \<mapsto>
                             put_timeseries symbol (appended ts (new_rows ts (cc win symbol))) f)))
          else files w
      | _ \<Rightarrow> files w)"
proof -
  have n: "h5_name (PyStr ''data.h5'') = ''data.h5''"
    by (simp add: h5_name_eq py_str_def)
  have p: "env_file env \<noteq> PyNone"
    using assms by (auto simp add: h5_name_eq py_str_def)
  show ?thesis
  proof (cases "env_symbol env")
    case None
    then show ?thesis
      by (simp add: update_all_historical_def check_key_attributes_def)
  next
    case s: (Some symbol)
    show ?thesis
    proof (cases "env_window env")
      case None
      then show ?thesis
        by (simp add: update_all_historical_def check_key_attributes_def s)
    next
      case win: (Some win)
      show ?thesis
      proof (cases "upper symbol \<in> set [''BTC'', ''ETH'']")
        case False
        then show ?thesis
          using p by (simp add: update_all_historical_def check_key_attributes_def s win
              get_minmax_daterange_def)
      next
        case valid: True
        show ?thesis
        proof (cases "files w ''data.h5''")
          case None
          then show ?thesis
            using p valid assms
            by (simp add: update_all_historical_def check_key_attributes_def s win
                get_minmax_daterange_def ensure_hdf5_h5_name py_print_def)
        next
          case f: (Some f)
          show ?thesis
          proof (cases "get_timeseries symbol f")
            case None
            then show ?thesis
              using p valid assms f
              by (simp add: update_all_historical_def check_key_attributes_def s win
                  get_minmax_daterange_def ensure_hdf5_h5_name py_print_def)
          next
            case ts: (Some ts)
            obtain mn mx where g: "get_minmax_timeseries ts = (mn, mx)"
              by (cases "get_minmax_timeseries ts")
            have mm: "get_minmax_daterange symbol (env_file env) w = (Return (Some (mn, mx)), w)"
              using valid assms f ts g
              by (simp add: get_minmax_daterange_def ensure_hdf5_h5_name)
            have sel: "select_new_values (cc win symbol) mn mx =
                (if new_rows ts (cc win symbol) = [] then None else Some (new_rows ts (cc win symbol)))"
              using select_new_values_eq [of "cc win symbol" ts] g by simp
            have f': "files w (h5_name (PyStr ''data.h5'')) = Some f"
              using f by (simp add: n)
            let ?rows = "new_rows ts (cc win symbol)"
            obtain w2 where eq: "append_to_datafile symbol (DataFrame ?rows) (PyStr ''data.h5'') w = (Return (), w2)"
              using append_returns [OF valid, of ?rows "PyStr ''data.h5''" w]
              by (metis prod.collapse)
            have w2: "files w2 = (files w)(''data.h5'' \<mapsto> put_timeseries symbol (appended ts ?rows) f)"
              using append_files [OF valid f' ts, of ?rows] by (simp add: n eq)
            show ?thesis
              using p
              by (simp add: update_all_historical_def check_key_attributes_def s win mm
                  sel eq w2 py_print_def valid f ts del: set_simps)
          qed
        qed
      qed
    qed
  qed
qed


lemma append_stored_series:
  assumes "upper s \<in> set [''BTC'', ''ETH'']" and "stored_series s fname w = Some ts"
  shows "stored_series s fname (snd (append_to_datafile s (DataFrame rows) fname w)) =
           Some (appended ts rows)"
proof -
  from assms(2) obtain f where f: "files w (h5_name fname) = Some f" "get_timeseries s f = Some ts"
    by (auto simp add: stored_series_def split: option.splits)
  show ?thesis
    unfolding stored_series_def append_files [OF assms(1) f]
    by (simp add: get_put_timeseries)
qed

lemma update_stored_series:
  assumes "h5_name (env_file env) = ''data.h5''"
    and "env_symbol env = Some s" and "env_window env = Some win"
    and "upper s \<in> set [''BTC'', ''ETH'']"
    and "stored_series s (env_file env) w = Some ts"
    and "sorted (map fst (cc win s))"
  shows "stored_series s (env_file env) (snd (update_all_historical cc env w)) =
           Some (ts @ new_rows ts (cc win s))"
proof -
  from assms(1,5) obtain f where f: "files w ''data.h5'' = Some f" "get_timeseries s f = Some ts"
    by (auto simp add: stored_series_def split: option.splits)
  show ?thesis
    unfolding stored_series_def update_files [OF assms(1)]
    using assms(2-4) f
    by (simp add: assms(1) get_put_timeseries appended_new_rows [OF assms(6)])
qed

lemma update_twice_files:
  assumes "h5_name (env_file env) = ''data.h5''"
  shows "files (snd (update_all_historical cc env (snd (update_all_historical cc env w)))) =
           files (snd (update_all_historical cc env w))"
proof -
  have k: "new_rows (appended ts (new_rows ts hist)) hist \<noteq> [] \<Longrightarrow>
     put_timeseries s
       (appended (appended ts (new_rows ts hist)) (new_rows (appended ts (new_rows ts hist)) hist))
       (put_timeseries s (appended ts (new_rows ts hist)) f) =
     put_timeseries s (appended ts (new_rows ts hist)) f"
    for ts hist and s :: string and f :: "'a h5file"
    using appended_again [of ts hist] by (simp add: put_put_timeseries)
  show ?thesis
    unfolding update_files [OF assms, of cc "snd (update_all_historical cc env w)"]
    unfolding update_files [OF assms, of cc w]
    by (simp add: get_put_timeseries k split: option.split)
qed

text \<open>
  Claim C1, as the code has it. \<open>append_to_datafile\<close> drops no row: it hands the whole batch
  to the library, which stores it after the rows already there or refuses it as a whole
  (then the stored rows are unchanged, and only a message is printed). The rows at or
  before the stored extent are dropped by the caller, \<open>update_all_historical\<close>, which appends
  only the rows that \<open>select_new_values\<close> returns. For an environment whose file is the
  default container \<open>data.h5\<close>, updating twice with the same fetched rows leaves the files,
  every extent and every \<open>read_all\<close> result as updating once does; when the fetched rows are
  ordered by time, one update stores exactly the rows after the stored maximum.
\<close>

theorem update_all_historical_idempotent:
  assumes "h5_name (env_file env) = ''data.h5''"
  shows "files (snd (update_all_historical cc env (snd (update_all_historical cc env w)))) =
           files (snd (update_all_historical cc env w)) \<and>
         fst (get_minmax_daterange symbol fname
               (snd (update_all_historical cc env (snd (update_all_historical cc env w))))) =
           fst (get_minmax_daterange symbol fname (snd (update_all_historical cc env w))) \<and>
         fst (read_datafile symbol start end fname True
               (snd (update_all_historical cc env (snd (update_all_historical cc env w))))) =
           fst (read_datafile symbol start end fname True (snd (update_all_historical cc env w))) \<and>
         (env_symbol env = Some s \<and> env_window env = Some win \<and>
          upper s \<in> set [''BTC'', ''ETH''] \<and> stored_series s (env_file env) w = Some ts \<and>
          sorted (map fst (cc win s)) \<longrightarrow>
            stored_series s (env_file env) (snd (update_all_historical cc env w)) =
              Some (ts @ new_rows ts (cc win s))) \<and>
         (upper s \<in> set [''BTC'', ''ETH''] \<and> stored_series s fname w = Some ts \<longrightarrow>
            stored_series s fname (snd (append_to_datafile s (DataFrame rows) fname w)) =
              Some (appended ts rows) \<and>
            (appended ts rows = ts \<or> appended ts rows = ts @ rows))"
proof -
  let ?w1 = "snd (update_all_historical cc env w)"
  let ?w2 = "snd (update_all_historical cc env ?w1)"
  have "files ?w2 = files ?w1"
    by (rule update_twice_files [OF assms])
  then show ?thesis
    using get_minmax_daterange_fst [of ?w2 ?w1 symbol fname]
      read_datafile_fst [of ?w2 ?w1 symbol start "end" fname]
      update_stored_series [OF assms, of s win w ts cc]
      append_stored_series [of s fname w ts rows]
      appended_cases [of ts rows]
    by blast
qed

text \<open>
  Claim C1, an instance: the container holds the row at time 1 and the provider returns the
  rows at times 1 and 2; one update stores the row at time 2, a second one changes nothing.
\<close>

theorem update_all_historical_idempotent_witness:
  "stored_series ''BTC'' (PyStr ''data.h5'')
     (snd (update_all_historical demo_cc demo_env (store_with ''data.h5'' [(1, ())] []))) =
       Some [(1, ()), (2, ())] \<and>
   files (snd (update_all_historical demo_cc demo_env
           (snd (update_all_historical demo_cc demo_env (store_with ''data.h5'' [(1, ())] []))))) =
     files (snd (update_all_historical demo_cc demo_env (store_with ''data.h5'' [(1, ())] [])))"
proof -
  have n: "h5_name (env_file demo_env) = ''data.h5''"
    by (simp add: demo_env_def h5_name_eq py_str_def)
  have h: "env_symbol demo_env = Some ''BTC'' \<and> env_window demo_env = Some Daily \<and>
      upper ''BTC'' \<in> set [''BTC'', ''ETH''] \<and>
      stored_series ''BTC'' (env_file demo_env) (store_with ''data.h5'' [(1, ())] []) = Some [(1, ())] \<and>
      sorted (map fst (demo_cc Daily ''BTC''))"
    by (simp add: demo_env_def upper_def upper_char_def stored_series_def h5_name_eq py_str_def
        store_with_def get_timeseries_def demo_cc_def)
  have r: "new_rows [(1, ())] (demo_cc Daily ''BTC'') = [(2, ())]"
    by (simp add: new_rows_def get_minmax_timeseries_def demo_cc_def)
  note t = update_all_historical_idempotent [OF n, of demo_cc "store_with ''data.h5'' [(1, ())] []"
      "''BTC''" "PyStr ''data.h5''" NoneT NoneT "''BTC''" Daily "[(1, ())]"]
  from t h have "stored_series ''BTC'' (env_file demo_env)
      (snd (update_all_historical demo_cc demo_env (store_with ''data.h5'' [(1, ())] []))) =
        Some ([(1, ())] @ new_rows [(1, ())] (demo_cc Daily ''BTC''))"
    by blast
  then have a: "stored_series ''BTC'' (PyStr ''data.h5'')
      (snd (update_all_historical demo_cc demo_env (store_with ''data.h5'' [(1, ())] []))) =
        Some [(1, ()), (2, ())]"
    by (simp add: r demo_env_def)
  from t have "files (snd (update_all_historical demo_cc demo_env
           (snd (update_all_historical demo_cc demo_env (store_with ''data.h5'' [(1, ())] []))))) =
     files (snd (update_all_historical demo_cc demo_env (store_with ''data.h5'' [(1, ())] [])))"
    by blast
  with a show ?thesis by simp
qed

text \<open>
  Claim C1 as stated fails: \<open>append_to_datafile\<close> called twice with the same one-row table
  stores the row twice, and \<open>read_all\<close> returns two rows where it returned one.
\<close>

theorem append_twice_counterexample:
  "fst (read_datafile ''BTC'' NoneT NoneT (PyStr ''data.h5'') True
         (snd (append_to_datafile ''BTC'' (DataFrame [(1, ())]) (PyStr ''data.h5'')
                (store_with ''data.h5'' [] [])))) = Return (Some [(1, ())]) \<and>
   fst (read_datafile ''BTC'' NoneT NoneT (PyStr ''data.h5'') True
         (snd (append_to_datafile ''BTC'' (DataFrame [(1, ())]) (PyStr ''data.h5'')
                (snd (append_to_datafile ''BTC'' (DataFrame [(1, ())]) (PyStr ''data.h5'')
                       (store_with ''data.h5'' [] [])))))) = Return (Some [(1, ()), (1, ())])"
  by (simp add: eval_defs)

section \<open>The Dataset\<close>

lemma select_rows_all: "length xs = n \<Longrightarrow> select_rows (replicate n True) xs = xs"
  by (induction xs arbitrary: n) (auto simp add: select_rows_def)

lemma select_rows_tail:
  "length xs = n \<Longrightarrow> select_rows (False # replicate n True) (x # xs) = xs"
  using select_rows_all [of xs n] by (simp add: select_rows_def)

lemma keep_all_finite: "map2 (\<and>) (replicate (length xs) True) (map (\<lambda>v. v \<noteq> NaN) (map Fin xs)) = replicate (length xs) True"
  by (induction xs) simp_all

lemma log_ratio_cells:
  "length xs = length ys \<Longrightarrow> \<forall>x \<in> set xs. 0 < x \<Longrightarrow> \<forall>y \<in> set ys. 0 < y \<Longrightarrow>
   map flog (map2 fdiv (map Fin xs) (map Fin ys)) = map (\<lambda>(a, b). Fin (ln (a / b))) (zip xs ys)"
  by (induction xs ys rule: list_induct2) simp_all

lemma keep_finite_cells:
  "length xs = length ys \<Longrightarrow>
   map2 (\<and>) (replicate (length xs) True) (map (\<lambda>v. v \<noteq> NaN) (map (\<lambda>(a, b). Fin (f a b)) (zip xs ys)))
     = replicate (length xs) True"
  by (induction xs ys rule: list_induct2) simp_all

lemma zip_take_length: "zip xs (take (length xs) ys) = zip xs ys"
proof (induction xs arbitrary: ys)
  case Nil
  then show ?case by simp
next
  case (Cons x xs)
  then show ?case by (cases ys) simp_all
qed

text \<open>
  The LogReturns table of a raw table of positive closes: the first row is dropped, and the
  return of each later row is the logarithm of its close over the close of the row before.
\<close>

lemma log_returns_positive_closes:
  assumes "\<forall>c \<in> set cs. 0 < c"
  shows "log_returns_table (closes cs) =
     Some \<lparr>index = map int [1..<length cs],
           columns = [(''close'', map Fin (tl cs)),
                      (''returns'', map (\<lambda>(a, b). Fin (ln (a / b))) (zip (tl cs) cs))]\<rparr>"
proof (cases cs)
  case Nil
  then show ?thesis
    by (simp add: log_returns_table_def closes_def getitem_def setitem_def shift_def dropna_def
        complete_rows_def select_rows_def)
next
  case (Cons c0 rest)
  let ?n = "length rest"
  have pos: "\<forall>x \<in> set rest. 0 < x" "\<forall>y \<in> set (butlast (c0 # rest)). 0 < y"
    using assms Cons by (auto dest: in_set_butlastD)
  have len: "length rest = length (butlast (c0 # rest))"
    by simp
  have sh: "shift 1 (map Fin (c0 # rest)) = NaN # map Fin (butlast (c0 # rest))"
  proof -
    have "map Fin (take (length rest) (c0 # rest)) = take (length rest) (map Fin (c0 # rest))"
      by (rule take_map [symmetric])
    then show ?thesis
      by (simp add: shift_def butlast_conv_take del: butlast.simps)
  qed
  have z: "zip rest (butlast (c0 # rest)) = zip rest (c0 # rest)"
    using zip_take_length [of rest "c0 # rest"] by (simp add: butlast_conv_take del: butlast.simps)
  have ret: "map flog (map2 fdiv (map Fin (c0 # rest)) (shift 1 (map Fin (c0 # rest)))) =
      NaN # map (\<lambda>(a, b). Fin (ln (a / b))) (zip rest (c0 # rest))"
    unfolding sh using log_ratio_cells [OF len pos] by (simp add: z del: butlast.simps)
  let ?F = "\<lparr>index = map int [0..<Suc ?n],
       columns = [(''close'', map Fin (c0 # rest)),
                  (''returns'', NaN # map (\<lambda>(a, b). Fin (ln (a / b))) (zip rest (c0 # rest)))]\<rparr>"
  let ?R = "\<lparr>index = map int [1..<Suc ?n],
       columns = [(''close'', map Fin rest),
                  (''returns'', map (\<lambda>(a, b). Fin (ln (a / b))) (zip rest (c0 # rest)))]\<rparr>"
  have idx: "map int [0..<Suc ?n] = 0 # map int [1..<Suc ?n]"
    by (simp add: upt_conv_Cons del: upt_Suc)
  have keep: "complete_rows ?F = False # replicate ?n True"
    using keep_all_finite [of rest] keep_finite_cells [of rest "butlast (c0 # rest)" "\<lambda>a b. ln (a / b)"]
    by (simp add: complete_rows_def z del: butlast.simps upt_Suc)
  have g: "getitem (closes (c0 # rest)) ''close'' = Some (map Fin (c0 # rest))"
    by (simp add: getitem_def closes_def)
  have d: "setitem ''returns'' (NaN # map (\<lambda>(a, b). Fin (ln (a / b))) (zip rest (c0 # rest)))
             (closes (c0 # rest)) = ?F"
    by (simp add: setitem_def closes_def)
  have dn: "dropna ?F = ?R"
    unfolding dropna_def Let_def keep
    by (simp add: idx select_rows_tail del: upt_Suc)
  have "log_returns_table (closes (c0 # rest)) = Some ?R"
    unfolding log_returns_table_def g option.case ret d dn ..
  then show ?thesis
    by (simp add: Cons)
qed

lemma ln_11_10_bounds: "952 / 10000 \<le> ln (11 / 10 :: real) \<and> ln (11 / 10 :: real) \<le> 954 / 10000"
proof -
  have up: "(11 / 10 :: real) \<le> exp (954 / 10000)"
  proof -
    have "(11 / 10 :: real) \<le> (1 + (954 / 10000) / real 64) ^ 64"
      by (simp add: power_divide)
    also have "\<dots> \<le> exp (954 / 10000)"
      by (rule exp_ge_one_plus_x_over_n_power_n) simp_all
    finally show ?thesis .
  qed
  have lo: "exp (952 / 10000) \<le> (11 / 10 :: real)"
  proof -
    have "(10 / 11 :: real) \<le> (1 - (952 / 10000) / real 64) ^ 64"
      by (simp add: power_divide)
    also have "\<dots> \<le> exp (- (952 / 10000))"
      by (rule exp_ge_one_minus_x_over_n_power_n) simp_all
    finally have "(10 / 11 :: real) \<le> exp (- (952 / 10000))" .
    then have "(10 / 11 :: real) \<le> 1 / exp (952 / 10000)"
      by (simp add: exp_minus inverse_eq_divide)
    then have "exp (952 / 10000) * (10 / 11 :: real) \<le> 1"
      by (simp add: field_simps)
    then show ?thesis by simp
  qed
  have "ln (11 / 10 :: real) \<le> 954 / 10000"
  proof -
    have "exp (ln (11 / 10 :: real)) \<le> exp (954 / 10000)"
      using up by simp
    then show ?thesis
      by (simp only: exp_le_cancel_iff)
  qed
  moreover have "952 / 10000 \<le> ln (11 / 10 :: real)"
  proof -
    have "exp (952 / 10000) \<le> exp (ln (11 / 10 :: real))"
      using lo by simp
    then show ?thesis
      by (simp only: exp_le_cancel_iff)
  qed
  ultimately show ?thesis by blast
qed

lemma add_log_returns_eq:
  "add_log_returns ds =
     (case raw ds of
        None \<Rightarrow> (Raise TypeError, ds\<lparr>sample := None\<rparr>)
      | Some r \<Rightarrow>
          (case log_returns_table r of
             None \<Rightarrow> (Raise (KeyError ''close''), ds\<lparr>sample := Some r\<rparr>)
           | Some t \<Rightarrow> (Return (), ds\<lparr>sample := Some t, nlags := None\<rparr>)))"
  by (simp add: add_log_returns_def reset_sample_data_def log_returns_table_def Let_def
      split: option.split)

lemma set_return_lags_eq:
  "set_return_lags (LagInt n) ds =
     (if \<not> 1 < n then (Raise (ValueError ''Must have more than one lag''), ds)
      else case sample ds of
        None \<Rightarrow> (Raise TypeError, ds)
      | Some s \<Rightarrow>
          if int (length (index s)) + 1 < n
          then (Raise (ValueError ''Must have less lags than length of sample dataset''), ds)
          else (case raw ds of
                  None \<Rightarrow> (Raise TypeError, ds\<lparr>sample := None\<rparr>)
                | Some r \<Rightarrow>
                    (case log_returns_table r of
                       None \<Rightarrow> (Raise (KeyError ''close''), ds\<lparr>sample := Some r\<rparr>)
                     | Some t \<Rightarrow>
                         (case add_lags (map (\<lambda>i. i + 1) [0..<nat n]) t of
                            (Raise e, t') \<Rightarrow> (Raise e, ds\<lparr>sample := Some t', nlags := None\<rparr>)
                          | (Return _, t') \<Rightarrow>
                              (Return (), ds\<lparr>sample := Some (dropna t'), nlags := None\<rparr>)))))"
  by (simp add: set_return_lags_def add_log_returns_eq split: option.split prod.split result.split)

lemma nlags_setter_success:
  "nlags_setter (LagInt n) ds = (Return (), ds1) \<longleftrightarrow>
     1 < n \<and>
     (\<exists>s r t. sample ds = Some s \<and> n \<le> int (length (index s)) + 1 \<and> raw ds = Some r \<and>
        lagged_table n r = Some t \<and> ds1 = ds\<lparr>sample := Some t, nlags := Some n\<rparr>)"
  by (auto simp add: nlags_setter_def set_return_lags_eq lagged_table_def
      split: option.splits prod.splits result.splits if_splits)

lemma nlags_setter_rejected:
  "sample ds = Some s \<Longrightarrow> int (length (index s)) + 1 < n \<Longrightarrow>
   nlags_setter (LagInt n) ds =
     (Raise (ValueError ''Must have less lags than length of sample dataset''), ds)"
  by (simp add: nlags_setter_def set_return_lags_eq)

text \<open>
  A second \<open>set_nlags(k)\<close> after a successful one compares \<open>k\<close> with the length of the sample
  the first call left: it is rejected by the guard of \<open>set_return_lags\<close> when
  \<open>k > len(sample) + 1\<close>, and succeeds otherwise. In both cases the object is as the first call
  left it.
\<close>

lemma nlags_setter_again:
  assumes "nlags_setter (LagInt k) ds = (Return (), ds1)"
  shows "\<exists>s1. sample ds1 = Some s1 \<and>
     nlags_setter (LagInt k) ds1 =
       (if int (length (index s1)) + 1 < k
        then (Raise (ValueError ''Must have less lags than length of sample dataset''), ds1)
        else (Return (), ds1))"
proof -
  from assms obtain s r t where k: "1 < k"
    and r: "raw ds = Some r" and t: "lagged_table k r = Some t"
    and ds1: "ds1 = ds\<lparr>sample := Some t, nlags := Some k\<rparr>"
    unfolding nlags_setter_success by blast
  have s1: "sample ds1 = Some t"
    by (simp add: ds1)
  show ?thesis
  proof (cases "int (length (index t)) + 1 < k")
    case True
    then show ?thesis
      using s1 nlags_setter_rejected [OF s1 True] by simp
  next
    case False
    have "nlags_setter (LagInt k) ds1 = (Return (), ds1)"
      unfolding nlags_setter_success using k r t False by (auto simp add: ds1)
    then show ?thesis
      using s1 False by simp
  qed
qed


lemmas dataset_eval =
  Dataset_init_def raw_setter_def nlags_setter_def set_return_lags_def add_log_returns_def
  reset_sample_data_def getitem_def setitem_def shift_def dropna_def complete_rows_def
  select_rows_def closes_def Let_def string_of_nat.simps eval_nat_numeral

lemma init_three_closes: "Dataset_init (Frame (closes [100, 110, 121])) = Return three_closes"
  by (simp add: dataset_eval three_closes_def)

lemma init_doubling: "Dataset_init (Frame (closes [1, 2, 4, 8, 16])) = Return doubling"
  by (simp add: dataset_eval doubling_def)

lemma set_nlags_2_doubling: "nlags_setter (LagInt 2) doubling = (Return (), doubling_lag2)"
  by (simp add: dataset_eval doubling_def doubling_lag2_def)

lemma set_nlags_3_doubling: "nlags_setter (LagInt 3) doubling = (Return (), doubling_lag3)"
  by (simp add: dataset_eval doubling_def doubling_lag3_def)

lemma log_returns_doubling:
  "log_returns_table (closes [1, 2, 4, 8, 16]) = sample doubling"
  by (simp add: log_returns_table_def dataset_eval doubling_def)

text \<open>
  Claim C4, what the code does where it departs from the claim: for the closes 1, 2, 4, 8, 16
  the call \<open>set_nlags(3)\<close> succeeds and leaves a sample of one row; the same call again is
  rejected, since the guard reads the length of that sample and 3 is more than 1 + 1.
\<close>

theorem set_nlags_twice_rejected:
  "Dataset_init (Frame (closes [1, 2, 4, 8, 16])) = Return doubling \<and>
   nlags_setter (LagInt 3) doubling = (Return (), doubling_lag3) \<and>
   nlags_setter (LagInt 3) doubling_lag3 =
     (Raise (ValueError ''Must have less lags than length of sample dataset''), doubling_lag3)"
proof -
  have "nlags_setter (LagInt 3) doubling_lag3 =
     (Raise (ValueError ''Must have less lags than length of sample dataset''), doubling_lag3)"
    by (rule nlags_setter_rejected [where s = "the (sample doubling_lag3)"])
      (simp_all add: doubling_lag3_def)
  then show ?thesis
    using init_doubling set_nlags_3_doubling by simp
qed

text \<open>
  Claim C3, what the code does: from the closes 100, 110, 121 the constructor builds a
  sample of two rows whose returns are \<open>ln(110/100)\<close> and \<open>ln(121/110)\<close>, both between 0.0952
  and 0.0954. Then \<open>set_nlags(2)\<close> does not fail: the guard asks for \<open>2 > 2 + 1\<close>, the lag
  columns are added and every row is dropped, so the sample is left empty with \<open>nlags = 2\<close>.
\<close>

theorem three_closes_two_lags:
  "Dataset_init (Frame (closes [100, 110, 121])) = Return three_closes \<and>
   sample three_closes =
     Some \<lparr>index = [1, 2],
           columns = [(''close'', [Fin 110, Fin 121]),
                      (''returns'', [Fin (ln (110 / 100)), Fin (ln (121 / 110))])]\<rparr> \<and>
   952 / 10000 \<le> ln (110 / 100 :: real) \<and> ln (110 / 100 :: real) \<le> 954 / 10000 \<and>
   952 / 10000 \<le> ln (121 / 110 :: real) \<and> ln (121 / 110 :: real) \<le> 954 / 10000 \<and>
   nlags_setter (LagInt 2) three_closes =
     (Return (),
      three_closes\<lparr>sample := Some \<lparr>index = [],
                         columns = [(''close'', []), (''returns'', []),
                                    (''returns_1'', []), (''returns_2'', [])]\<rparr>,
         nlags := Some 2\<rparr>)"
proof -
  have "nlags_setter (LagInt 2) three_closes =
     (Return (),
      three_closes\<lparr>sample := Some \<lparr>index = [],
                         columns = [(''close'', []), (''returns'', []),
                                    (''returns_1'', []), (''returns_2'', [])]\<rparr>,
         nlags := Some 2\<rparr>)"
    by (simp add: dataset_eval three_closes_def)
  moreover have "sample three_closes =
     Some \<lparr>index = [1, 2],
           columns = [(''close'', [Fin 110, Fin 121]),
                      (''returns'', [Fin (ln (110 / 100)), Fin (ln (121 / 110))])]\<rparr>"
    by (simp add: three_closes_def)
  ultimately show ?thesis
    using init_three_closes ln_11_10_bounds by simp
qed

lemma raw_setter_success:
  "raw_setter new_raw ds = (Return (), ds') \<longleftrightarrow>
     (new_raw = NoFrame \<and> ds' = ds\<lparr>raw := None, sample := None\<rparr>) \<or>
     (\<exists>df t. new_raw = Frame df \<and> log_returns_table df = Some t \<and>
        ds' = ds\<lparr>raw := Some df, sample := Some t, nlags := None\<rparr>)"
  by (cases new_raw) (auto simp add: raw_setter_def add_log_returns_eq split: option.splits)

lemma Dataset_init_success:
  "Dataset_init input_data = Return ds \<longleftrightarrow>
     (input_data = NoFrame \<and> ds = \<lparr>raw = None, sample = None, nlags = None\<rparr>) \<or>
     (\<exists>df t. input_data = Frame df \<and> log_returns_table df = Some t \<and>
        ds = \<lparr>raw = Some df, sample = Some t, nlags = None\<rparr>)"
  by (cases input_data)
    (auto simp add: Dataset_init_def raw_setter_def add_log_returns_eq nlags_setter_def
      split: option.splits)

lemma digit_inj:
  "i < 10 \<Longrightarrow> j < 10 \<Longrightarrow> ''0123456789'' ! i = ''0123456789'' ! j \<Longrightarrow> i = j"
proof -
  have d: "distinct ''0123456789''"
    by simp
  assume "i < 10" "j < 10" "''0123456789'' ! i = ''0123456789'' ! j"
  then show ?thesis
    using nth_eq_iff_index_eq [OF d, of i j] by simp
qed

lemma string_of_nat_nonempty: "string_of_nat n \<noteq> []"
  by (subst string_of_nat.simps) simp

lemma string_of_nat_inj: "string_of_nat a = string_of_nat b \<Longrightarrow> a = b"
proof (induction a arbitrary: b rule: string_of_nat.induct)
  case (1 a)
  show ?case
  proof (cases "a < 10")
    case True
    show ?thesis
    proof (cases "b < 10")
      case b: True
      from "1.prems" True b have "''0123456789'' ! a = ''0123456789'' ! b"
        by (simp add: string_of_nat.simps [of a] string_of_nat.simps [of b])
      then show ?thesis
        by (rule digit_inj [OF True b])
    next
      case b: False
      from "1.prems" True b string_of_nat_nonempty [of "b div 10"] show ?thesis
        by (simp add: string_of_nat.simps [of a] string_of_nat.simps [of b])
    qed
  next
    case False
    show ?thesis
    proof (cases "b < 10")
      case b: True
      from "1.prems" False b string_of_nat_nonempty [of "a div 10"] show ?thesis
        by (simp add: string_of_nat.simps [of a] string_of_nat.simps [of b])
    next
      case b: False
      from "1.prems" False b have e: "string_of_nat (a div 10) = string_of_nat (b div 10)"
        and d: "''0123456789'' ! (a mod 10) = ''0123456789'' ! (b mod 10)"
        by (simp_all add: string_of_nat.simps [of a] string_of_nat.simps [of b])
      from "1.IH" [OF False e] have q: "a div 10 = b div 10" .
      have "a mod 10 = b mod 10"
        by (rule digit_inj [OF _ _ d]) simp_all
      with q show ?thesis
        by (metis div_mult_mod_eq)
    qed
  qed
qed

lemma drop_conv_nth: "drop k xs = map (\<lambda>t. xs ! t) [k..<length xs]"
proof -
  have "map (\<lambda>t. xs ! t) [k..<length xs] = drop k (map (\<lambda>t. xs ! t) [0..<length xs])"
    by (simp add: drop_map)
  then show ?thesis
    by (simp add: map_nth)
qed

lemma select_rows_replicate:
  "length xs = a + b \<Longrightarrow> select_rows (replicate a False @ replicate b True) xs = drop a xs"
proof (induction a arbitrary: xs)
  case 0
  then show ?case
    by (simp add: select_rows_def) (metis map_snd_zip length_replicate filter_True in_set_zip fst_conv nth_replicate)
next
  case (Suc a)
  then obtain y ys where xs: "xs = y # ys"
    by (cases xs) auto
  with Suc.prems have "length ys = a + b"
    by simp
  from Suc.IH [OF this] show ?case
    by (simp add: xs select_rows_def)
qed

lemma threshold_rows:
  "map (\<lambda>t. k \<le> t) [0..<n] = replicate (min k n) False @ replicate (n - k) True"
  by (rule nth_equalityI) (auto simp add: nth_append)

lemma select_rows_drop:
  assumes "length xs = n"
  shows "select_rows (map (\<lambda>t. k \<le> t) [0..<n]) xs = drop k xs"
proof -
  have "length xs = min k n + (n - k)"
    using assms by simp
  from select_rows_replicate [OF this] have "select_rows (map (\<lambda>t. k \<le> t) [0..<n]) xs = drop (min k n) xs"
    by (simp add: threshold_rows)
  then show ?thesis
    using assms by (simp add: min_def)
qed

lemma fold_keep:
  assumes "length keep = n" and "\<forall>(name, col) \<in> set cs. length col = n"
  shows "fold (\<lambda>(name, col) keep. map2 (\<and>) keep (map (\<lambda>v. v \<noteq> NaN) col)) cs keep =
     map (\<lambda>t. keep ! t \<and> (\<forall>(name, col) \<in> set cs. col ! t \<noteq> NaN)) [0..<n]"
  using assms
proof (induction cs arbitrary: keep)
  case Nil
  then show ?case
    using map_nth [of keep] by simp
next
  case (Cons c cs)
  obtain name col where c: "c = (name, col)"
    by (cases c)
  let ?keep = "map2 (\<and>) keep (map (\<lambda>v. v \<noteq> NaN) col)"
  have l: "length ?keep = n"
    using Cons.prems by (simp add: c)
  have cs: "\<forall>(name, col) \<in> set cs. length col = n"
    using Cons.prems by simp
  have "?keep ! t = (keep ! t \<and> col ! t \<noteq> NaN)" if "t < n" for t
    using that Cons.prems by (simp add: c)
  then show ?case
    using Cons.IH [OF l cs] by (auto simp add: c)
qed

lemma complete_rows_nth:
  assumes "\<forall>(name, col) \<in> set (columns df). length col = length (index df)"
  shows "complete_rows df =
     map (\<lambda>t. \<forall>(name, col) \<in> set (columns df). col ! t \<noteq> NaN) [0..<length (index df)]"
  unfolding complete_rows_def
  using fold_keep [OF _ assms, of "replicate (length (index df)) True"]
  by simp

lemma dropna_drop_rows:
  assumes "\<forall>(name, col) \<in> set (columns df). length col = length (index df)"
    and "\<forall>t < length (index df). (\<forall>(name, col) \<in> set (columns df). col ! t \<noteq> NaN) \<longleftrightarrow> k \<le> t"
  shows "dropna df = drop_rows k df"
proof -
  have "complete_rows df = map (\<lambda>t. k \<le> t) [0..<length (index df)]"
    unfolding complete_rows_nth [OF assms(1)] using assms(2) by simp
  then show ?thesis
    using assms(1) by (auto simp add: dropna_def drop_rows_def Let_def select_rows_drop)
qed


lemma shift_length: "length (shift n xs) = length xs"
  by (simp add: shift_def)

lemma shift_nth: "t < length xs \<Longrightarrow> shift n xs ! t = (if t < n then NaN else xs ! (t - n))"
  by (simp add: shift_def nth_append)

lemma positive_cell: "positive v \<Longrightarrow> v = Fin (cell v) \<and> 0 < cell v"
  by (cases v) simp_all

lemma raw_returns_length: "length (map flog (map2 fdiv close (shift 1 close))) = length close"
  by (simp add: shift_length)

lemma raw_returns_nth:
  assumes "list_all positive close" and "t < length close"
  shows "map flog (map2 fdiv close (shift 1 close)) ! t =
     (if t = 0 then NaN else Fin (ln (cell (close ! t) / cell (close ! (t - 1)))))"
proof -
  have p: "positive (close ! i)" if "i < length close" for i
    using assms(1) that by (simp add: list_all_length)
  obtain a where a: "close ! t = Fin a" "0 < a"
    using positive_cell [OF p [OF assms(2)]] by metis
  show ?thesis
  proof (cases "t = 0")
    case True
    then show ?thesis
      using assms(2) a by (simp add: shift_length shift_nth)
  next
    case False
    then have "t - 1 < length close"
      using assms(2) by simp
    then obtain b where b: "close ! (t - 1) = Fin b" "0 < b"
      using positive_cell [OF p] by metis
    show ?thesis
      using assms(2) a b False by (simp add: shift_length shift_nth)
  qed
qed

lemma set_column_absent:
  "name \<notin> fst ` set cs \<Longrightarrow> set_column name vals cs = cs @ [(name, vals)]"
  by (induction name vals cs rule: set_column.induct) auto

lemma clean_columns:
  assumes "clean r" and "(name, col) \<in> set (columns r)"
  shows "length col = length (index r)" and "NaN \<notin> set col" and "name \<noteq> ''returns''"
    and "take 8 name \<noteq> ''returns_''"
  using assms by (auto simp add: clean_def list_all_iff)

lemma clean_close:
  assumes "clean r"
  obtains close where "map_of (columns r) ''close'' = Some close" and "list_all positive close"
    and "length close = length (index r)"
proof -
  from assms obtain close where c: "map_of (columns r) ''close'' = Some close"
    and p: "list_all positive close"
    by (auto simp add: clean_def split: option.splits)
  from map_of_SomeD [OF c] have "length close = length (index r)"
    by (rule clean_columns(1) [OF assms])
  with c p that show ?thesis
    by blast
qed

lemma clean_no_returns: "clean r \<Longrightarrow> ''returns'' \<notin> fst ` set (columns r)"
  using clean_columns(3) by fastforce

lemma clean_no_lag: "clean r \<Longrightarrow> ''returns_'' @ s \<notin> fst ` set (columns r)"
  using clean_columns(4) [of r "''returns_'' @ s"] by fastforce

lemma spec_returns_length: "length (spec_returns close) = length close - 1"
  by (simp add: spec_returns_def)

lemma spec_returns_finite: "NaN \<notin> set (spec_returns close)"
  by (auto simp add: spec_returns_def)

text \<open>On a clean raw table the code's LogReturns table is the one the spec describes.\<close>

lemma log_returns_table_spec:
  assumes "clean r"
  shows "log_returns_table r = spec_log_returns r"
proof -
  from assms obtain close where c: "map_of (columns r) ''close'' = Some close"
    and p: "list_all positive close" and l: "length close = length (index r)"
    by (rule clean_close)
  let ?rr = "map flog (map2 fdiv close (shift 1 close))"
  let ?F = "r\<lparr>columns := columns r @ [(''returns'', ?rr)]\<rparr>"
  have s: "setitem ''returns'' ?rr r = ?F"
    unfolding setitem_def set_column_absent [OF clean_no_returns [OF assms]] ..
  have len: "\<forall>(name, col) \<in> set (columns ?F). length col = length (index ?F)"
    using clean_columns(1) [OF assms] l by (auto simp add: shift_length)
  have rows: "\<forall>t < length (index ?F). (\<forall>(name, col) \<in> set (columns ?F). col ! t \<noteq> NaN) \<longleftrightarrow> 1 \<le> t"
  proof (intro allI impI)
    fix t
    assume "t < length (index ?F)"
    then have t: "t < length (index r)"
      by simp
    have a: "col ! t \<noteq> NaN" if "(name, col) \<in> set (columns r)" for name col
    proof -
      have "col ! t \<in> set col"
        using clean_columns(1) [OF assms that] t by simp
      with clean_columns(2) [OF assms that] show ?thesis
        by metis
    qed
    have b: "?rr ! t \<noteq> NaN \<longleftrightarrow> 1 \<le> t"
      using raw_returns_nth [OF p, of t] t l by auto
    show "(\<forall>(name, col) \<in> set (columns ?F). col ! t \<noteq> NaN) \<longleftrightarrow> 1 \<le> t"
      using a b by auto
  qed
  have d: "drop 1 ?rr = spec_returns close"
    unfolding drop_conv_nth [of 1 ?rr] raw_returns_length spec_returns_def
    using raw_returns_nth [OF p] by (intro map_cong) auto
  have "dropna ?F = drop_rows 1 ?F"
    by (rule dropna_drop_rows [OF len rows])
  also have "\<dots> = \<lparr>index = drop 1 (index r),
                columns = map (\<lambda>(name, col). (name, drop 1 col)) (columns r) @
                          [(''returns'', spec_returns close)]\<rparr>"
    unfolding drop_rows_def using d by simp
  finally have fin: "dropna ?F = \<lparr>index = drop 1 (index r),
                columns = map (\<lambda>(name, col). (name, drop 1 col)) (columns r) @
                          [(''returns'', spec_returns close)]\<rparr>" .
  show ?thesis
    unfolding log_returns_table_def spec_log_returns_def getitem_def c option.case s fin ..
qed

lemma add_lags_absent:
  assumes "distinct nums"
    and "\<forall>num \<in> set nums. ''returns_'' @ string_of_nat num \<notin> fst ` set (columns d)"
    and "map_of (columns d) ''returns'' = Some ret"
  shows "add_lags nums d =
     (Return (), d\<lparr>columns := columns d @ map (\<lambda>i. (''returns_'' @ string_of_nat i, shift i ret)) nums\<rparr>)"
  using assms
proof (induction nums arbitrary: d)
  case Nil
  then show ?case by simp
next
  case (Cons num nums)
  let ?name = "''returns_'' @ string_of_nat num"
  let ?d = "d\<lparr>columns := columns d @ [(?name, shift num ret)]\<rparr>"
  have absent: "?name \<notin> fst ` set (columns d)"
    using Cons.prems(2) by simp
  have s: "setitem ?name (shift num ret) d = ?d"
    unfolding setitem_def set_column_absent [OF absent] ..
  have 1: "distinct nums"
    using Cons.prems(1) by simp
  have 2: "\<forall>j \<in> set nums. ''returns_'' @ string_of_nat j \<notin> fst ` set (columns ?d)"
    using Cons.prems(1,2) by (auto dest: string_of_nat_inj)
  have 3: "map_of (columns ?d) ''returns'' = Some ret"
    using Cons.prems(3) by (simp add: map_add_Some_iff)
  have absent': "?name \<notin> set (map fst (columns d))"
    using absent by simp
  have "add_lags (num # nums) d = add_lags nums ?d"
    by (subst add_lags.simps)
      (simp only: Let_def getitem_def Cons.prems(3) absent' if_False option.case s)
  then show ?case
    using Cons.IH [OF 1 2 3] by simp
qed

text \<open>On a clean raw table the code's Lagged table is the one the spec describes.\<close>

lemma lagged_table_spec:
  assumes "clean r"
  shows "lagged_table k r = spec_lagged (nat k) r"
proof -
  from assms obtain close where c: "map_of (columns r) ''close'' = Some close"
    and p: "list_all positive close" and l: "length close = length (index r)"
    by (rule clean_close)
  let ?k = "nat k"
  let ?ret = "spec_returns close"
  let ?L = "\<lparr>index = drop 1 (index r),
             columns = map (\<lambda>(name, col). (name, drop 1 col)) (columns r) @ [(''returns'', ?ret)]\<rparr>"
  let ?lags = "map (\<lambda>i. (''returns_'' @ string_of_nat i, shift i ?ret)) [1..<Suc ?k]"
  let ?F = "?L\<lparr>columns := columns ?L @ ?lags\<rparr>"
  have sl: "spec_log_returns r = Some ?L"
    by (simp add: spec_log_returns_def c)
  have lt: "log_returns_table r = Some ?L"
    by (simp add: log_returns_table_spec [OF assms] sl)
  have names: "fst ` set (columns ?L) = insert ''returns'' (fst ` set (columns r))"
    by (simp add: image_Un image_image case_prod_beta)
  have none: "map_of (map (\<lambda>(name, col). (name, drop 1 col)) (columns r)) ''returns'' = None"
    using clean_no_returns [OF assms] by (simp add: map_of_eq_None_iff image_image case_prod_beta)
  have ret: "map_of (columns ?L) ''returns'' = Some ?ret"
    using none by (simp add: map_add_def)
  have absent: "\<forall>num \<in> set [1..<Suc ?k]. ''returns_'' @ string_of_nat num \<notin> fst ` set (columns ?L)"
    unfolding names using clean_no_lag [OF assms] by simp
  have nums: "map (\<lambda>i. i + 1) [0..<?k] = [1..<Suc ?k]"
    using map_Suc_upt [of 0 ?k] by simp
  have al: "add_lags (map (\<lambda>i. i + 1) [0..<?k]) ?L = (Return (), ?F)"
    unfolding nums by (rule add_lags_absent [OF _ absent ret]) simp
  have m: "length ?ret = length (index ?L)"
    using l by (simp add: spec_returns_length)
  have len: "\<forall>(name, col) \<in> set (columns ?F). length col = length (index ?F)"
    using clean_columns(1) [OF assms] m by (auto simp add: shift_length)
  have rows: "\<forall>t < length (index ?F). (\<forall>(name, col) \<in> set (columns ?F). col ! t \<noteq> NaN) \<longleftrightarrow> ?k \<le> t"
  proof (intro allI impI)
    fix t
    assume "t < length (index ?F)"
    then have t: "Suc t < length (index r)" and t': "t < length ?ret"
      using m by simp_all
    have a: "drop 1 col ! t \<noteq> NaN" if "(name, col) \<in> set (columns r)" for name col
    proof -
      have "drop 1 col ! t \<in> set col"
        using clean_columns(1) [OF assms that] t by simp
      with clean_columns(2) [OF assms that] show ?thesis
        by metis
    qed
    have b: "?ret ! j \<noteq> NaN" if "j < length ?ret" for j
      using spec_returns_finite [of close] that by (metis nth_mem)
    have e: "shift i ?ret ! t \<noteq> NaN \<longleftrightarrow> i \<le> t" for i
      using b [of "t - i"] t' by (auto simp add: shift_nth)
    have lagcols: "(\<forall>i \<in> set [1..<Suc ?k]. shift i ?ret ! t \<noteq> NaN) \<longleftrightarrow> ?k \<le> t"
      unfolding e by (cases "?k = 0") auto
    show "(\<forall>(name, col) \<in> set (columns ?F). col ! t \<noteq> NaN) \<longleftrightarrow> ?k \<le> t"
    proof
      assume all: "\<forall>(name, col) \<in> set (columns ?F). col ! t \<noteq> NaN"
      have "\<forall>i \<in> set [1..<Suc ?k]. shift i ?ret ! t \<noteq> NaN"
      proof
        fix i
        assume "i \<in> set [1..<Suc ?k]"
        then have "(''returns_'' @ string_of_nat i, shift i ?ret) \<in> set (columns ?F)"
          by (auto simp del: upt_Suc)
        with all show "shift i ?ret ! t \<noteq> NaN"
          by fastforce
      qed
      with lagcols show "?k \<le> t"
        by blast
    next
      assume "?k \<le> t"
      with lagcols have lc: "\<forall>i \<in> set [1..<Suc ?k]. shift i ?ret ! t \<noteq> NaN"
        by blast
      have "col ! t \<noteq> NaN" if "(name, col) \<in> set (columns ?F)" for name col
      proof -
        from that consider "\<exists>c0. (name, c0) \<in> set (columns r) \<and> col = drop 1 c0" | "col = ?ret"
          | "\<exists>i \<in> set [1..<Suc ?k]. col = shift i ?ret"
          by (auto simp del: upt_Suc)
        then show ?thesis
        proof cases
          case 1
          then show ?thesis using a by blast
        next
          case 2
          then show ?thesis using b [OF t'] by simp
        next
          case 3
          then show ?thesis using lc by blast
        qed
      qed
      then show "\<forall>(name, col) \<in> set (columns ?F). col ! t \<noteq> NaN"
        by blast
    qed
  qed
  have d: "drop ?k (shift i ?ret) = map (\<lambda>t. ?ret ! (t - i)) [?k..<length ?ret]" if "i \<le> ?k" for i
    unfolding drop_conv_nth [of ?k "shift i ?ret"] shift_length
    using that by (intro map_cong) (auto simp add: shift_nth)
  have "dropna ?F = drop_rows ?k ?F"
    by (rule dropna_drop_rows [OF len rows])
  also have "\<dots> = \<lparr>index = drop ?k (index ?L),
        columns = map (\<lambda>(name, col). (name, drop ?k col)) (columns ?L) @
                  map (\<lambda>i. (''returns_'' @ string_of_nat i,
                             map (\<lambda>t. ?ret ! (t - i)) [?k..<length ?ret])) [1..<Suc ?k]\<rparr>"
    unfolding drop_rows_def using d by (auto simp add: comp_def)
  finally have "dropna ?F = \<lparr>index = drop ?k (index ?L),
        columns = map (\<lambda>(name, col). (name, drop ?k col)) (columns ?L) @
                  map (\<lambda>i. (''returns_'' @ string_of_nat i,
                             map (\<lambda>t. ?ret ! (t - i)) [?k..<length ?ret])) [1..<Suc ?k]\<rparr>" .
  then show ?thesis
    unfolding lagged_table_def lt option.case al prod.case result.case
    unfolding spec_lagged_def sl option.case ret
    by simp
qed

lemma sample_inv_init: "Dataset_init input_data = Return ds \<Longrightarrow> sample_inv ds"
  unfolding Dataset_init_success by (auto simp add: sample_inv_def computed_sample_def)

lemma sample_inv_raw: "raw_setter new_raw ds = (Return (), ds') \<Longrightarrow> sample_inv ds \<Longrightarrow> sample_inv ds'"
  unfolding raw_setter_success by (auto simp add: sample_inv_def computed_sample_def)

lemma nlags_setter_None: "nlags_setter LagNone ds = (Return (), ds\<lparr>nlags := None\<rparr>)"
  by (simp add: nlags_setter_def)

lemma nlags_setter_Other: "nlags_setter LagOther ds \<noteq> (Return (), ds')"
  by (simp add: nlags_setter_def)

lemma sample_inv_nlags:
  assumes "sample_inv ds" and "nlags_setter k ds = (Return (), ds')"
  shows "sample_inv ds'"
proof (cases k)
  case (LagInt n)
  with assms(2) show ?thesis
    unfolding LagInt nlags_setter_success by (auto simp add: sample_inv_def computed_sample_def)
next
  case LagNone
  with assms have ds': "ds' = ds\<lparr>nlags := None\<rparr>"
    by (simp add: nlags_setter_None)
  show ?thesis
  proof (cases "raw ds")
    case None
    with assms(1) show ?thesis by (simp add: sample_inv_def ds')
  next
    case (Some r)
    from assms(1) Some have ne: "sample ds \<noteq> None"
      and d: "sample ds = computed_sample r (nlags ds) \<or>
              nlags ds = None \<and> (\<exists>k. 1 < k \<and> sample ds = computed_sample r (Some k))"
      and b: "case nlags ds of None \<Rightarrow> True | Some k \<Rightarrow> 1 < k"
      by (simp_all add: sample_inv_def)
    have "sample ds = computed_sample r None \<or> (\<exists>k. 1 < k \<and> sample ds = computed_sample r (Some k))"
      using d b by (cases "nlags ds") auto
    then show ?thesis
      using ne Some by (simp add: sample_inv_def ds')
  qed
next
  case LagOther
  with assms(2) show ?thesis by (simp add: nlags_setter_Other)
qed

lemma reachable_sample_inv: "reachable ds \<Longrightarrow> sample_inv ds"
  by (induction rule: reachable.induct)
    (auto intro: sample_inv_init sample_inv_raw sample_inv_nlags)

lemma computed_sample_spec: "clean r \<Longrightarrow> computed_sample r k = pipeline r k"
  by (simp add: computed_sample_def pipeline_def log_returns_table_spec lagged_table_spec
      split: option.split)

text \<open>
  Claim C5, as the code has it. After every sequence of successful constructions,
  \<open>set_raw\<close> and \<open>set_nlags\<close> calls: without a raw table there is no sample; with a raw
  table that has no missing cell, positive closes and no column named \<open>returns\<close> or
  \<open>returns_...\<close>, the sample is the pipeline output of the spec for it and the current
  \<open>nlags\<close>, or, when \<open>nlags\<close> is unset, for it and some lag count more than 1
  (\<open>set_nlags(None)\<close> clears \<open>nlags\<close> and keeps the sample).
\<close>

theorem sample_is_pipeline_output:
  assumes "reachable ds"
  shows "(raw ds = None \<longrightarrow> sample ds = None) \<and>
         (\<forall>r. raw ds = Some r \<and> clean r \<longrightarrow>
            sample ds \<noteq> None \<and>
            (sample ds = pipeline r (nlags ds) \<or>
             nlags ds = None \<and> (\<exists>k. 1 < k \<and> sample ds = pipeline r (Some k))))"
proof -
  from assms have "sample_inv ds"
    by (rule reachable_sample_inv)
  then show ?thesis
    by (auto simp add: sample_inv_def computed_sample_spec split: option.splits)
qed

lemma reachable_doubling: "reachable doubling"
  by (rule reachable.constructed [OF init_doubling])

lemma reachable_doubling_lag2: "reachable doubling_lag2"
  by (rule reachable.set_nlags [OF reachable_doubling set_nlags_2_doubling])

lemma reachable_doubling_lag2_unset: "reachable (doubling_lag2\<lparr>nlags := None\<rparr>)"
  by (rule reachable.set_nlags [OF reachable_doubling_lag2 nlags_setter_None])

lemma reachable_preset_lag2: "reachable preset_lag2"
proof -
  have "Dataset_init (Frame preset_raw) = Return preset"
    by (simp add: dataset_eval preset_def preset_raw_def)
  then have "reachable preset"
    by (rule reachable.constructed)
  moreover have "nlags_setter (LagInt 2) preset = (Return (), preset_lag2)"
    by (simp add: dataset_eval preset_def preset_raw_def preset_lag2_def)
  ultimately show ?thesis
    by (rule reachable.set_nlags)
qed

lemma clean_doubling: "clean (closes [1, 2, 4, 8, 16])"
  by (simp add: clean_def closes_def)

lemma spec_log_returns_doubling:
  "index (the (pipeline (closes [1, 2, 4, 8, 16]) None)) = [1, 2, 3, 4]"
  by (simp add: pipeline_def spec_log_returns_def closes_def eval_nat_numeral)

text \<open>
  Claim C5, an instance: the Dataset of the closes 1, 2, 4, 8, 16 after \<open>set_nlags(2)\<close>; the
  pipeline of the spec gives the two rows that the sample has.
\<close>

theorem sample_is_pipeline_output_witness:
  "reachable doubling_lag2 \<and> clean (closes [1, 2, 4, 8, 16]) \<and>
   pipeline (closes [1, 2, 4, 8, 16]) (Some 2) =
     Some \<lparr>index = [3, 4],
           columns = [(''close'', [Fin 8, Fin 16]),
                      (''returns'', [Fin (ln 2), Fin (ln 2)]),
                      (''returns_1'', [Fin (ln 2), Fin (ln 2)]),
                      (''returns_2'', [Fin (ln 2), Fin (ln 2)])]\<rparr>"
proof -
  have r: "raw doubling_lag2 = Some (closes [1, 2, 4, 8, 16])" and n: "nlags doubling_lag2 = Some 2"
    by (simp_all add: doubling_lag2_def doubling_def)
  note t = sample_is_pipeline_output [OF reachable_doubling_lag2]
  from t r clean_doubling have "sample doubling_lag2 = pipeline (closes [1, 2, 4, 8, 16]) (nlags doubling_lag2) \<or>
      nlags doubling_lag2 = None \<and> (\<exists>k. 1 < k \<and> sample doubling_lag2 = pipeline (closes [1, 2, 4, 8, 16]) (Some k))"
    by blast
  then have "sample doubling_lag2 = pipeline (closes [1, 2, 4, 8, 16]) (Some 2)"
    by (simp add: n)
  then have "pipeline (closes [1, 2, 4, 8, 16]) (Some 2) =
     Some \<lparr>index = [3, 4],
           columns = [(''close'', [Fin 8, Fin 16]),
                      (''returns'', [Fin (ln 2), Fin (ln 2)]),
                      (''returns_1'', [Fin (ln 2), Fin (ln 2)]),
                      (''returns_2'', [Fin (ln 2), Fin (ln 2)])]\<rparr>"
    by (simp add: doubling_lag2_def)
  with reachable_doubling_lag2 clean_doubling show ?thesis
    by simp
qed

text \<open>
  Claim C5 as stated fails. Construction, \<open>set_nlags(2)\<close> and \<open>set_nlags(None)\<close> all succeed
  and leave \<open>nlags\<close> unset with a sample of two rows, where the pipeline output for unset
  \<open>nlags\<close> has four. The public \<open>sample\<close> setter and \<open>reset_sample_data\<close> store a sample that is
  no pipeline output. And for a raw table that already has a column \<open>returns_2\<close>,
  \<open>set_nlags(2)\<close> keeps that column and drops one row less than the pipeline does.
\<close>

theorem sample_is_pipeline_output_counterexample:
  "reachable (doubling_lag2\<lparr>nlags := None\<rparr>) \<and>
   raw (doubling_lag2\<lparr>nlags := None\<rparr>) = Some (closes [1, 2, 4, 8, 16]) \<and>
   nlags (doubling_lag2\<lparr>nlags := None\<rparr>) = None \<and>
   sample (doubling_lag2\<lparr>nlags := None\<rparr>) \<noteq> pipeline (closes [1, 2, 4, 8, 16]) None \<and>
   sample_setter (Frame (closes [7])) doubling = (Return (), doubling\<lparr>sample := Some (closes [7])\<rparr>) \<and>
   Some (closes [7]) \<noteq> pipeline (closes [1, 2, 4, 8, 16]) None \<and>
   reset_sample_data doubling = doubling\<lparr>sample := Some (closes [1, 2, 4, 8, 16])\<rparr> \<and>
   Some (closes [1, 2, 4, 8, 16]) \<noteq> pipeline (closes [1, 2, 4, 8, 16]) None \<and>
   reachable preset_lag2 \<and> raw preset_lag2 = Some preset_raw \<and> nlags preset_lag2 = Some 2 \<and>
   sample preset_lag2 \<noteq> pipeline preset_raw (Some 2)"
proof -
  have i: "index (the (pipeline preset_raw (Some 2))) = [3, 4]"
    by (simp add: pipeline_def spec_lagged_def spec_log_returns_def preset_raw_def)
  have a: "sample (doubling_lag2\<lparr>nlags := None\<rparr>) \<noteq> pipeline (closes [1, 2, 4, 8, 16]) None"
  proof
    assume "sample (doubling_lag2\<lparr>nlags := None\<rparr>) = pipeline (closes [1, 2, 4, 8, 16]) None"
    then have "index (the (sample (doubling_lag2\<lparr>nlags := None\<rparr>))) =
        index (the (pipeline (closes [1, 2, 4, 8, 16]) None))"
      by simp
    then show False
      by (simp add: spec_log_returns_doubling doubling_lag2_def)
  qed
  have b: "Some (closes [7]) \<noteq> pipeline (closes [1, 2, 4, 8, 16]) None"
  proof
    assume "Some (closes [7]) = pipeline (closes [1, 2, 4, 8, 16]) None"
    then have "index (the (Some (closes [7]))) = index (the (pipeline (closes [1, 2, 4, 8, 16]) None))"
      by simp
    then show False
      unfolding spec_log_returns_doubling by (simp add: closes_def)
  qed
  have c: "Some (closes [1, 2, 4, 8, 16]) \<noteq> pipeline (closes [1, 2, 4, 8, 16]) None"
  proof
    assume "Some (closes [1, 2, 4, 8, 16]) = pipeline (closes [1, 2, 4, 8, 16]) None"
    then have "index (the (Some (closes [1, 2, 4, 8, 16]))) =
        index (the (pipeline (closes [1, 2, 4, 8, 16]) None))"
      by simp
    then show False
      unfolding spec_log_returns_doubling by (simp add: closes_def)
  qed
  have d: "sample preset_lag2 \<noteq> pipeline preset_raw (Some 2)"
  proof
    assume "sample preset_lag2 = pipeline preset_raw (Some 2)"
    then have "index (the (sample preset_lag2)) = index (the (pipeline preset_raw (Some 2)))"
      by simp
    then show False
      by (simp add: i preset_lag2_def)
  qed
  have e: "sample_setter (Frame (closes [7])) doubling = (Return (), doubling\<lparr>sample := Some (closes [7])\<rparr>)"
    by (simp add: sample_setter_def)
  have f: "reset_sample_data doubling = doubling\<lparr>sample := Some (closes [1, 2, 4, 8, 16])\<rparr>"
    by (simp add: reset_sample_data_def doubling_def)
  have g: "raw (doubling_lag2\<lparr>nlags := None\<rparr>) = Some (closes [1, 2, 4, 8, 16])"
    "raw preset_lag2 = Some preset_raw" "nlags preset_lag2 = Some 2"
    by (simp_all add: doubling_lag2_def doubling_def preset_lag2_def preset_def)
  from a b c d e f g reachable_doubling_lag2_unset reachable_preset_lag2 show ?thesis
    by simp
qed

lemma set_column_names:
  "fst ` set (set_column name vals cs) = insert name (fst ` set cs)"
  by (induction name vals cs rule: set_column.induct) (simp_all add: insert_commute)

lemma add_lags_names:
  "add_lags nums d = (Return (), d') \<Longrightarrow>
   set (map fst (columns d)) \<subseteq> set (map fst (columns d')) \<and>
   (\<forall>num \<in> set nums. ''returns_'' @ string_of_nat num \<in> set (map fst (columns d')))"
proof (induction nums arbitrary: d)
  case Nil
  then show ?case by simp
next
  case (Cons num nums)
  show ?case
  proof (cases "''returns_'' @ string_of_nat num \<in> set (map fst (columns d))")
    case True
    with Cons.prems have "add_lags nums d = (Return (), d')"
      by simp
    from Cons.IH [OF this] True show ?thesis
      by auto
  next
    case False
    with Cons.prems obtain r where r: "getitem d ''returns'' = Some r"
      and rec: "add_lags nums (setitem (''returns_'' @ string_of_nat num) (shift num r) d) = (Return (), d')"
      by (auto simp add: Let_def split: option.splits)
    from Cons.IH [OF rec] show ?thesis
      by (auto simp add: setitem_def set_column_names)
  qed
qed

lemma dropna_names: "map fst (columns (dropna d)) = map fst (columns d)"
  by (simp add: dropna_def Let_def case_prod_beta comp_def)

lemma lagged_table_names:
  assumes "lagged_table k r = Some t"
  shows "\<forall>i \<in> {1..nat k}. ''returns_'' @ string_of_nat i \<in> set (map fst (columns t))"
proof -
  from assms obtain t0 t' where "add_lags (map (\<lambda>i. i + 1) [0..<nat k]) t0 = (Return (), t')"
    and t: "t = dropna t'"
    by (auto simp add: lagged_table_def split: option.splits prod.splits result.splits)
  from add_lags_names [OF this(1)]
  have "\<forall>num \<in> set (map (\<lambda>i. i + 1) [0..<nat k]). ''returns_'' @ string_of_nat num \<in> set (map fst (columns t'))"
    by blast
  moreover have "set (map (\<lambda>i. i + 1) [0..<nat k]) = {1..nat k}"
    by (auto simp add: image_iff)
  ultimately show ?thesis
    by (simp add: t dropna_names)
qed

text \<open>
  Claim C7, as the code has it. In the state a successful \<open>set_nlags(k)\<close> leaves,
  \<open>set_nlags(None)\<close> stores \<open>None\<close> in \<open>nlags\<close> and nothing else: the sample is the one it was,
  with the columns \<open>returns_1 ... returns_k\<close> still in it.
\<close>

theorem set_nlags_None_keeps_sample:
  assumes "nlags_setter (LagInt k) ds = (Return (), ds1)"
  shows "nlags_setter LagNone ds1 = (Return (), ds1\<lparr>nlags := None\<rparr>) \<and>
     (\<exists>s. sample ds1 = Some s \<and> sample (ds1\<lparr>nlags := None\<rparr>) = Some s \<and>
        (\<forall>i \<in> {1..nat k}. ''returns_'' @ string_of_nat i \<in> set (map fst (columns s))))"
proof -
  from assms obtain r t where t: "lagged_table k r = Some t"
    and ds1: "ds1 = ds\<lparr>sample := Some t, nlags := Some k\<rparr>"
    unfolding nlags_setter_success by blast
  from lagged_table_names [OF t] show ?thesis
    by (simp add: nlags_setter_None ds1)
qed

text \<open>
  Claim C7, an instance: the Dataset of the closes 1, 2, 4, 8, 16 after \<open>set_nlags(2)\<close>.
\<close>

theorem set_nlags_None_keeps_sample_witness:
  "nlags_setter LagNone doubling_lag2 = (Return (), doubling_lag2\<lparr>nlags := None\<rparr>) \<and>
   sample (doubling_lag2\<lparr>nlags := None\<rparr>) = sample doubling_lag2 \<and>
   ''returns_2'' \<in> set (map fst (columns (the (sample doubling_lag2))))"
proof -
  obtain s where a: "nlags_setter LagNone doubling_lag2 = (Return (), doubling_lag2\<lparr>nlags := None\<rparr>)"
    and s: "sample doubling_lag2 = Some s" "sample (doubling_lag2\<lparr>nlags := None\<rparr>) = Some s"
    and c: "\<forall>i \<in> {1..nat 2}. ''returns_'' @ string_of_nat i \<in> set (map fst (columns s))"
    using set_nlags_None_keeps_sample [OF set_nlags_2_doubling] by blast
  from c have "''returns_'' @ string_of_nat 2 \<in> set (map fst (columns s))"
    by simp
  then have "''returns_2'' \<in> set (map fst (columns s))"
    by (simp add: string_of_nat.simps)
  with a s show ?thesis by simp
qed

text \<open>
  Claim C7 as stated fails: for the closes 1, 2, 4, 8, 16, after \<open>set_nlags(2)\<close> and then
  \<open>set_nlags(None)\<close> the sample still has two rows and the columns \<open>returns_1\<close> and
  \<open>returns_2\<close>; the LogReturns sample has four rows and no lag column.
\<close>

theorem set_nlags_None_counterexample:
  "nlags_setter (LagInt 2) doubling = (Return (), doubling_lag2) \<and>
   nlags_setter LagNone doubling_lag2 = (Return (), doubling_lag2\<lparr>nlags := None\<rparr>) \<and>
   sample (doubling_lag2\<lparr>nlags := None\<rparr>) =
     Some \<lparr>index = [3, 4],
           columns = [(''close'', [Fin 8, Fin 16]),
                      (''returns'', [Fin (ln 2), Fin (ln 2)]),
                      (''returns_1'', [Fin (ln 2), Fin (ln 2)]),
                      (''returns_2'', [Fin (ln 2), Fin (ln 2)])]\<rparr> \<and>
   log_returns_table (closes [1, 2, 4, 8, 16]) =
     Some \<lparr>index = [1, 2, 3, 4],
           columns = [(''close'', [Fin 2, Fin 4, Fin 8, Fin 16]),
                      (''returns'', [Fin (ln 2), Fin (ln 2), Fin (ln 2), Fin (ln 2)])]\<rparr>"
  using set_nlags_2_doubling nlags_setter_None [of doubling_lag2] log_returns_doubling
  by (simp add: doubling_lag2_def doubling_def)

end
